theory Spec2Isabelle
  imports Complex_Main
begin

section \<open>Values, exceptions and images\<close>

text \<open>
  A Python exception is a class name with a message; \<open>str(e)\<close> and the f-string
  \<open>f"{e}"\<close> both give the message. Every call into a library that the source places
  inside a \<^verbatim>\<open>try\<close> block, and the upload write of the request handler, returns
  \<open>py_exception + 'a\<close>, with \<open>Inl\<close> for a raise. What the program prints to the
  console is left out.
\<close>

datatype py_exception = PyException (exc_class: string) (exc_msg: string)

type_synonym bytes = "nat list"

text \<open>A PIL image: its mode (\<open>RGB\<close>, \<open>RGBA\<close>, \<open>P\<close>, ...), its size and its pixel data.\<close>

record image =
  mode :: string
  img_size :: "nat \<times> nat"
  pixels :: bytes

type_synonym ndarray = bytes

subsection \<open>Floating-point numbers\<close>

text \<open>
  A Python float is a binary64 number: a rational of the form \<open>m * 2 ^ q\<close> with
  \<open>\<bar>m\<bar> < 2 ^ 53\<close> and \<open>- 1074 \<le> q \<le> 971\<close>, or an infinity. Negative zero is not
  told from zero. An infinity arises only when a difference overflows, and is never
  subtracted, so there is no NaN.
\<close>

datatype pyfloat = Finite rat | PosInf | NegInf

text \<open>The nearest integer, a tie going to the even one.\<close>

definition round_half_even :: "rat \<Rightarrow> int" where
  "round_half_even y =
     (let f = \<lfloor>y\<rfloor>; d = y - of_int f
      in if d < 1 / 2 then f
         else if 1 / 2 < d then f + 1
         else if even f then f else f + 1)"

text \<open>The number of binary digits of a positive integer.\<close>

function bit_length :: "int \<Rightarrow> int" where
  "bit_length n = (if n \<le> 0 then 0 else 1 + bit_length (n div 2))"
  by pat_completeness auto
termination
  by (relation "measure nat") auto

declare bit_length.simps [simp del]

text \<open>For a positive rational \<open>a\<close>, the integer \<open>e\<close> with \<open>2 ^ e \<le> a < 2 ^ (e + 1)\<close>.\<close>

definition floor_log2 :: "rat \<Rightarrow> int" where
  "floor_log2 a =
     (case quotient_of a of
        (p, q) \<Rightarrow>
          (let d = bit_length p - bit_length q
           in if 2 powi d \<le> a then d else d - 1))"

text \<open>
  The float nearest to a rational, a tie going to the even significand: 53 binary
  digits from the leading one, the exponent not below that of the subnormal numbers,
  and an infinity when the magnitude reaches \<open>2 ^ 1024\<close> (that is, when the exponent
  \<open>q\<close> is above 971, or is 971 with a significand rounded up to \<open>2 ^ 53\<close>).
\<close>

definition ieee_round :: "rat \<Rightarrow> pyfloat" where
  "ieee_round x =
     (if x = 0 then Finite 0
      else
        (let a = \<bar>x\<bar>;
             q = max (floor_log2 a - 52) (- 1074);
             m = round_half_even (a / 2 powi q);
             v = of_int m * 2 powi q
         in if 971 < q \<or> (q = 971 \<and> 2 ^ 53 \<le> m) then (if 0 < x then PosInf else NegInf)
            else Finite (if 0 < x then v else - v)))"

text \<open>The largest float, and the finite float nearest to a rational.\<close>

definition max_double :: rat where
  "max_double = (2 ^ 53 - 1) * 2 ^ 971"

definition finite_double :: "rat \<Rightarrow> rat" where
  "finite_double x =
     (case ieee_round x of
        Finite v \<Rightarrow> v
      | PosInf \<Rightarrow> max_double
      | NegInf \<Rightarrow> - max_double)"

text \<open>The difference of two finite floats: the exact difference, rounded.\<close>

definition float_sub :: "rat \<Rightarrow> rat \<Rightarrow> pyfloat" where
  "float_sub a b = ieee_round (a - b)"

text \<open>
  \<^verbatim>\<open>round(x, 2)\<close> on a float: the exact value of \<open>x\<close> is rounded to the nearest
  multiple of one hundredth, a tie going to the even one, and the float nearest to
  that decimal is returned. An infinity rounds to itself.
\<close>

fun py_round2 :: "pyfloat \<Rightarrow> pyfloat" where
  "py_round2 (Finite x) = ieee_round (of_int (round_half_even (x * 100)) / 100)"
| "py_round2 PosInf = PosInf"
| "py_round2 NegInf = NegInf"

fun float_nonneg :: "pyfloat \<Rightarrow> bool" where
  "float_nonneg (Finite v) = (0 \<le> v)"
| "float_nonneg PosInf = True"
| "float_nonneg NegInf = False"

subsection \<open>Dictionaries\<close>

text \<open>The values stored in the per-image result dictionary, and the dictionary itself.\<close>

datatype pyval = PyNone | PyBool bool | PyStr string | PyInt int | PyFloat pyfloat

type_synonym pydict = "string \<rightharpoonup> pyval"

subsection \<open>The response of the remote generation service\<close>

text \<open>
  The source reads \<^verbatim>\<open>response.candidates[0].content.parts\<close> and, of each part,
  \<^verbatim>\<open>part.inline_data\<close> and \<^verbatim>\<open>part.inline_data.data\<close>, both tested for truthiness.
  Each of these fields may be None in what the client library returns.
\<close>

record blob =
  data :: "bytes option"

record part =
  inline_data :: "blob option"

record content =
  parts :: "part list option"

record candidate =
  content :: "content option"

record response =
  candidates :: "candidate list option"

subsection \<open>The uploaded file and the request\<close>

record upload =
  filename :: string
  stream :: bytes

text \<open>
  \<^verbatim>\<open>request.files\<close> and \<^verbatim>\<open>request.form\<close> are multi-dictionaries: ordered lists of
  key and value, where a key is present exactly when it has a value.
\<close>

record request =
  files :: "(string \<times> upload) list"
  form :: "(string \<times> string) list"

datatype body = ErrorBody string | ResultsBody "pydict list"

type_synonym http_response = "body \<times> nat"

section \<open>The environment\<close>

text \<open>
  What the program calls and does not define: the imaging libraries, the remote client,
  the file system, the clock, the random identifiers and the process environment. Each
  is a field of the world the program runs in, and a property is stated for all worlds.
  A library call is a function of its arguments: called again on the same arguments, it
  answers the same.
\<close>

record world =
  SDK_AVAILABLE :: bool
  environ :: "string \<rightharpoonup> string"
  clock :: "nat \<Rightarrow> rat"
  uuids :: "nat \<Rightarrow> string"
  secure_filename :: "string \<Rightarrow> string"
  FileStorage_save :: "upload \<Rightarrow> string \<Rightarrow> py_exception + unit"
  Image_open :: "string \<Rightarrow> py_exception + image"
  Image_open_bytes :: "bytes \<Rightarrow> py_exception + image"
  Image_convert :: "image \<Rightarrow> string \<Rightarrow> py_exception + image"
  Image_save :: "image \<Rightarrow> string \<Rightarrow> py_exception + unit"
  paste_on_background :: "image \<Rightarrow> nat \<times> nat \<times> nat \<Rightarrow> py_exception + image"
  cv_from_pil :: "image \<Rightarrow> py_exception + ndarray"
  cv_GaussianBlur :: "ndarray \<Rightarrow> nat \<times> nat \<Rightarrow> nat \<Rightarrow> py_exception + ndarray"
  cv_to_pil :: "ndarray \<Rightarrow> py_exception + image"
  rembg_remove :: "image \<Rightarrow> py_exception + image"
  genai_Client :: "string \<Rightarrow> py_exception + string"
  generate_content :: "string \<Rightarrow> string \<Rightarrow> string \<Rightarrow> image \<Rightarrow> py_exception + response"

text \<open>
  The effects a run leaves behind: files written and remote calls made. The state also
  counts the clock readings and the identifiers drawn so far.
\<close>

datatype event =
    UploadSaved string
  | ImageSaved string
  | RemoteCall string string string

record state =
  clock_reads :: nat
  uuid_draws :: nat
  trace :: "event list"

definition log_event :: "event \<Rightarrow> state \<Rightarrow> state" where
  "log_event ev st = st\<lparr>trace := trace st @ [ev]\<rparr>"

text \<open>
  \<^verbatim>\<open>time.time()\<close> returns a finite float: what the clock of the world shows at that
  reading, as the nearest float.
\<close>

definition clock_reading :: "world \<Rightarrow> nat \<Rightarrow> rat" where
  "clock_reading w n = finite_double (clock w n)"

definition time_time :: "world \<Rightarrow> state \<Rightarrow> rat \<times> state" where
  "time_time w st =
     (clock_reading w (clock_reads st), st\<lparr>clock_reads := Suc (clock_reads st)\<rparr>)"

definition uuid4 :: "world \<Rightarrow> state \<Rightarrow> string \<times> state" where
  "uuid4 w st = (uuids w (uuid_draws st), st\<lparr>uuid_draws := Suc (uuid_draws st)\<rparr>)"

section \<open>Library functions on strings\<close>

definition os_path_join :: "string \<Rightarrow> string \<Rightarrow> string" where
  "os_path_join a b =
     (if b \<noteq> [] \<and> hd b = CHR ''/'' then b
      else if a = [] \<or> last a = CHR ''/'' then a @ b
      else a @ ''/'' @ b)"

definition os_path_basename :: "string \<Rightarrow> string" where
  "os_path_basename p = rev (takeWhile (\<lambda>c. c \<noteq> CHR ''/'') (rev p))"

text \<open>
  \<^verbatim>\<open>os.path.splitext\<close> on a name without directory part: the extension starts at
  the last dot, unless only dots come before it.
\<close>

definition os_path_splitext :: "string \<Rightarrow> string \<times> string" where
  "os_path_splitext p =
     (let ext = rev (takeWhile (\<lambda>c. c \<noteq> CHR ''.'') (rev p));
          root = take (length p - length ext - 1) p
      in if CHR ''.'' \<in> set p \<and> filter (\<lambda>c. c \<noteq> CHR ''.'') root \<noteq> []
         then (root, drop (length root) p)
         else (p, []))"

text \<open>\<^verbatim>\<open>str.lower\<close>, which on the letters of an allowed extension is the ASCII one.\<close>

definition lower_char :: "char \<Rightarrow> char" where
  "lower_char c =
     (case map_of (zip ''ABCDEFGHIJKLMNOPQRSTUVWXYZ'' ''abcdefghijklmnopqrstuvwxyz'') c of
        None \<Rightarrow> c
      | Some l \<Rightarrow> l)"

definition str_lower :: "string \<Rightarrow> string" where
  "str_lower s = map lower_char s"

text \<open>\<^verbatim>\<open>s.rsplit('.', 1)[1]\<close>, for a string that holds a dot: what follows the last dot.\<close>

definition rsplit_dot_last :: "string \<Rightarrow> string" where
  "rsplit_dot_last s = rev (takeWhile (\<lambda>c. c \<noteq> CHR ''.'') (rev s))"

section \<open>image\_processor.py\<close>

definition GEMINI_MODEL_NAME :: string where
  "GEMINI_MODEL_NAME = ''gemini-2.0-flash-exp-image-generation''"

subsection \<open>reduce\_noise\_cv\<close>

text \<open>Lines 33 to 35: to an array in BGR order, the 5 by 5 blur, back to an image.\<close>

definition blur_image :: "world \<Rightarrow> image \<Rightarrow> py_exception + image" where
  "blur_image w pil_image =
     (case cv_from_pil w pil_image of
        Inl e \<Rightarrow> Inl e
      | Inr cv_image \<Rightarrow>
          (case cv_GaussianBlur w cv_image (5, 5) 0 of
             Inl e \<Rightarrow> Inl e
           | Inr blurred \<Rightarrow> cv_to_pil w blurred))"

text \<open>
  The body of the \<^verbatim>\<open>try\<close>. It returns its outcome together with the image the
  variable \<^verbatim>\<open>pil_image\<close> is bound to when the body ends: line 32 rebinds the
  parameter, and the handler reads it.
\<close>

definition reduce_noise_cv_try :: "world \<Rightarrow> image \<Rightarrow> (py_exception + image) \<times> image" where
  "reduce_noise_cv_try w pil_image =
     (if mode pil_image \<in> set [''RGBA'', ''P'']
      then (case Image_convert w pil_image ''RGB'' of
              Inl e \<Rightarrow> (Inl e, pil_image)
            | Inr converted \<Rightarrow> (blur_image w converted, converted))
      else (blur_image w pil_image, pil_image))"

definition reduce_noise_cv :: "world \<Rightarrow> image \<Rightarrow> py_exception + image" where
  "reduce_noise_cv w pil_image =
     (case reduce_noise_cv_try w pil_image of
        (Inr out, _) \<Rightarrow> Inr out
      | (Inl e, pil_image') \<Rightarrow> Inr pil_image')"

subsection \<open>remove\_background\_rembg\<close>

definition remove_background_rembg_try ::
  "world \<Rightarrow> image \<Rightarrow> nat \<times> nat \<times> nat \<times> nat \<Rightarrow> py_exception + image" where
  "remove_background_rembg_try w pil_image bg_color =
     (case rembg_remove w pil_image of
        Inl e \<Rightarrow> Inl e
      | Inr result \<Rightarrow>
          (case bg_color of (r, g, b, a) \<Rightarrow>
             if a = 0 then Inr result
             else paste_on_background w result (r, g, b)))"

definition remove_background_rembg ::
  "world \<Rightarrow> image \<Rightarrow> nat \<times> nat \<times> nat \<times> nat \<Rightarrow> py_exception + image" where
  "remove_background_rembg w pil_image bg_color =
     (case remove_background_rembg_try w pil_image bg_color of
        Inr out \<Rightarrow> Inr out
      | Inl e \<Rightarrow> Inr pil_image)"

subsection \<open>call\_gemini\_image\_editing\<close>

text \<open>
  Line 76, \<^verbatim>\<open>part.inline_data and part.inline_data.data\<close>: the bytes of a part, when
  its inline data is there and its data is neither None nor empty.
\<close>

definition part_payload :: "part \<Rightarrow> bytes option" where
  "part_payload p =
     (case inline_data p of
        None \<Rightarrow> None
      | Some b \<Rightarrow>
          (case data b of
             None \<Rightarrow> None
           | Some image_bytes \<Rightarrow> if image_bytes = [] then None else Some image_bytes))"

text \<open>Lines 75 to 78: the first part with inline data is opened and returned.\<close>

fun first_inline_image :: "world \<Rightarrow> part list \<Rightarrow> py_exception + image option" where
  "first_inline_image w [] = Inr None"
| "first_inline_image w (p # ps) =
     (case part_payload p of
        None \<Rightarrow> first_inline_image w ps
      | Some image_bytes \<Rightarrow>
          (case Image_open_bytes w image_bytes of
             Inl e \<Rightarrow> Inl e
           | Inr img \<Rightarrow> Inr (Some img)))"

text \<open>
  Line 75, \<^verbatim>\<open>response.candidates[0].content.parts\<close>, as the loop reads it: indexing
  None raises TypeError and indexing an empty list IndexError, reading \<open>parts\<close> of None
  raises AttributeError, and iterating over None raises TypeError.
\<close>

definition quoted :: "string \<Rightarrow> string" where
  "quoted s = CHR 0x27 # s @ [CHR 0x27]"

definition response_parts :: "response \<Rightarrow> py_exception + part list" where
  "response_parts resp =
     (case candidates resp of
        None \<Rightarrow>
          Inl (PyException ''TypeError'' (quoted ''NoneType'' @ '' object is not subscriptable''))
      | Some [] \<Rightarrow> Inl (PyException ''IndexError'' ''list index out of range'')
      | Some (c # _) \<Rightarrow>
          (case content c of
             None \<Rightarrow>
               Inl (PyException ''AttributeError''
                      (quoted ''NoneType'' @ '' object has no attribute '' @ quoted ''parts''))
           | Some ct \<Rightarrow>
               (case parts ct of
                  None \<Rightarrow>
                    Inl (PyException ''TypeError''
                           (quoted ''NoneType'' @ '' object is not iterable''))
                | Some ps \<Rightarrow> Inr ps)))"

text \<open>
  Lines 60 to 65: an image with an alpha channel is pasted on a white background, any
  other image is converted to RGB.
\<close>

definition rgb_image_to_send :: "world \<Rightarrow> image \<Rightarrow> py_exception + image" where
  "rgb_image_to_send w input_pil_image =
     (if mode input_pil_image = ''RGBA''
      then paste_on_background w input_pil_image (255, 255, 255)
      else Image_convert w input_pil_image ''RGB'')"

text \<open>Lines 59 to 78, the body of the \<^verbatim>\<open>try\<close>.\<close>

definition call_gemini_try ::
  "world \<Rightarrow> string \<Rightarrow> string \<Rightarrow> string \<Rightarrow> image \<Rightarrow> state
     \<Rightarrow> (py_exception + image option) \<times> state" where
  "call_gemini_try w api_key model_name prompt input_pil_image st =
     (case genai_Client w api_key of
        Inl e \<Rightarrow> (Inl e, st)
      | Inr client \<Rightarrow>
          (case rgb_image_to_send w input_pil_image of
             Inl e \<Rightarrow> (Inl e, st)
           | Inr image_to_send \<Rightarrow>
               (let st1 = log_event (RemoteCall client model_name prompt) st
                in case generate_content w client model_name prompt image_to_send of
                     Inl e \<Rightarrow> (Inl e, st1)
                   | Inr resp \<Rightarrow>
                       (case response_parts resp of
                          Inl e \<Rightarrow> (Inl e, st1)
                        | Inr ps \<Rightarrow> (first_inline_image w ps, st1)))))"

definition call_gemini_image_editing ::
  "world \<Rightarrow> string \<Rightarrow> string \<Rightarrow> string \<Rightarrow> image option \<Rightarrow> state
     \<Rightarrow> (py_exception + image option) \<times> state" where
  "call_gemini_image_editing w api_key model_name prompt input_pil_image st =
     (if \<not> SDK_AVAILABLE w \<or> input_pil_image = None then (Inr None, st)
      else (case input_pil_image of
              None \<Rightarrow> (Inr None, st)
            | Some img \<Rightarrow>
                (case call_gemini_try w api_key model_name prompt img st of
                   (Inl e, st') \<Rightarrow>
                     (Inl (PyException ''Exception'' (''Gemini API error: '' @ exc_msg e)), st')
                 | (Inr edited, st') \<Rightarrow> (Inr edited, st'))))"

subsection \<open>process\_image\<close>

definition initial_result :: pydict where
  "initial_result =
     [''success'' \<mapsto> PyBool False,
      ''preprocessed_path'' \<mapsto> PyNone,
      ''gemini_path'' \<mapsto> PyNone,
      ''error'' \<mapsto> PyNone,
      ''processing_time'' \<mapsto> PyInt 0]"

text \<open>
  Lines 113 to 124, the third step. Like the whole \<^verbatim>\<open>try\<close> block it returns
  whether it raised, the result dictionary as it stands then, and the state. An image
  is truthy, so \<^verbatim>\<open>if edited\<close> asks whether the call returned one.
\<close>

definition gemini_editing_step ::
  "world \<Rightarrow> string \<Rightarrow> string \<Rightarrow> string \<Rightarrow> string \<Rightarrow> image \<Rightarrow> pydict \<Rightarrow> state
     \<Rightarrow> (py_exception + unit) \<times> pydict \<times> state" where
  "gemini_editing_step w base_name prompt api_key gemini_output_dir bg_removed result st =
     (if SDK_AVAILABLE w \<and> api_key \<noteq> [] then
        (case call_gemini_image_editing w api_key GEMINI_MODEL_NAME prompt (Some bg_removed) st of
           (Inl e, st1) \<Rightarrow> (Inl e, result, st1)
         | (Inr None, st1) \<Rightarrow>
             (Inr (), result(''error'' \<mapsto> PyStr ''Gemini editing failed''), st1)
         | (Inr (Some edited), st1) \<Rightarrow>
             (let final_path = os_path_join gemini_output_dir (base_name @ ''_gemini.png'')
              in case Image_save w edited final_path of
                   Inl e \<Rightarrow> (Inl e, result, st1)
                 | Inr _ \<Rightarrow>
                     (Inr (),
                      result(''gemini_path'' \<mapsto>
                               PyStr (os_path_join ''gemini_edited'' (base_name @ ''_gemini.png'')),
                             ''success'' \<mapsto> PyBool True),
                      log_event (ImageSaved final_path) st1)))
      else (Inr (), result(''error'' \<mapsto> PyStr ''SDK or API key missing''), st))"

text \<open>Lines 99 to 124, the body of the \<^verbatim>\<open>try\<close>.\<close>

definition process_image_try ::
  "world \<Rightarrow> string \<Rightarrow> string \<Rightarrow> string \<Rightarrow> string \<Rightarrow> string \<Rightarrow> string \<Rightarrow> pydict \<Rightarrow> state
     \<Rightarrow> (py_exception + unit) \<times> pydict \<times> state" where
  "process_image_try w image_path base_name prompt api_key preprocessed_dir gemini_output_dir
       result st =
     (case Image_open w image_path of
        Inl e \<Rightarrow> (Inl e, result, st)
      | Inr img \<Rightarrow>
          (case reduce_noise_cv w img of
             Inl e \<Rightarrow> (Inl e, result, st)
           | Inr denoised \<Rightarrow>
               (case remove_background_rembg w denoised (255, 255, 255, 0) of
                  Inl e \<Rightarrow> (Inl e, result, st)
                | Inr bg_removed \<Rightarrow>
                    (let pre_path = os_path_join preprocessed_dir (base_name @ ''_pre.png'')
                     in case Image_save w bg_removed pre_path of
                          Inl e \<Rightarrow> (Inl e, result, st)
                        | Inr _ \<Rightarrow>
                            gemini_editing_step w base_name prompt api_key gemini_output_dir
                              bg_removed
                              (result(''preprocessed_path'' \<mapsto>
                                 PyStr (os_path_join ''preprocessed'' (base_name @ ''_pre.png''))))
                              (log_event (ImageSaved pre_path) st)))))"

text \<open>
  No statement of \<^verbatim>\<open>process_image\<close> outside its \<^verbatim>\<open>try\<close> block calls into
  a library that fails, so the value is always \<open>Inr\<close>; the sum type is there for the
  caller, which guards the call with a handler of its own.
\<close>

definition process_image ::
  "world \<Rightarrow> string \<Rightarrow> string \<Rightarrow> string \<Rightarrow> string \<Rightarrow> string \<Rightarrow> state
     \<Rightarrow> (py_exception + pydict) \<times> state" where
  "process_image w image_path prompt api_key preprocessed_dir gemini_output_dir st =
     (case time_time w st of
        (start_time, st1) \<Rightarrow>
          (let base_name = fst (os_path_splitext (os_path_basename image_path))
           in case process_image_try w image_path base_name prompt api_key preprocessed_dir
                     gemini_output_dir initial_result st1 of
                (outcome, result, st2) \<Rightarrow>
                  (let result' = (case outcome of
                                    Inl e \<Rightarrow> result(''error'' \<mapsto> PyStr (exc_msg e))
                                  | Inr _ \<Rightarrow> result)
                   in case time_time w st2 of
                        (end_time, st3) \<Rightarrow>
                          (Inr (result'(''processing_time'' \<mapsto>
                                          PyFloat (py_round2 (float_sub end_time start_time)))),
                           st3))))"

section \<open>app.py\<close>

definition UPLOAD_FOLDER :: string where
  "UPLOAD_FOLDER = ''uploads''"

definition OUTPUT_DIR :: string where
  "OUTPUT_DIR = ''output''"

definition PREPROCESSED_DIR :: string where
  "PREPROCESSED_DIR = os_path_join OUTPUT_DIR ''preprocessed''"

definition GEMINI_OUTPUT_DIR :: string where
  "GEMINI_OUTPUT_DIR = os_path_join OUTPUT_DIR ''gemini_edited''"

definition ALLOWED_EXTENSIONS :: "string list" where
  "ALLOWED_EXTENSIONS = [''png'', ''jpg'', ''jpeg'', ''webp'']"

definition allowed_file :: "string \<Rightarrow> bool" where
  "allowed_file fname =
     (CHR ''.'' \<in> set fname \<and> str_lower (rsplit_dot_last fname) \<in> set ALLOWED_EXTENSIONS)"

text \<open>
  Line 55, \<^verbatim>\<open>file and allowed_file(file.filename)\<close>: an uploaded file is truthy
  when its name is not empty.
\<close>

definition accepted :: "upload \<Rightarrow> bool" where
  "accepted file = (filename file \<noteq> [] \<and> allowed_file (filename file))"

text \<open>
  Lines 54 to 74, the loop over the files, with the list of results built so far.
  The upload is written outside the handler of line 63: when it raises, the exception
  leaves the request handler.
\<close>

fun process_files ::
  "world \<Rightarrow> string \<Rightarrow> string \<Rightarrow> upload list \<Rightarrow> pydict list \<Rightarrow> state
     \<Rightarrow> (py_exception + pydict list) \<times> state" where
  "process_files w prompt api_key [] results st = (Inr results, st)"
| "process_files w prompt api_key (file # rest) results st =
     (if accepted file then
        (let original_filename = secure_filename w (filename file)
         in case uuid4 w st of
              (u, st1) \<Rightarrow>
                (let file_path = os_path_join UPLOAD_FOLDER (u @ ''_'' @ original_filename)
                 in case FileStorage_save w file file_path of
                      Inl e \<Rightarrow> (Inl e, st1)
                    | Inr _ \<Rightarrow>
                        (case process_image w file_path prompt api_key PREPROCESSED_DIR
                                GEMINI_OUTPUT_DIR (log_event (UploadSaved file_path) st1) of
                           (Inr result, st2) \<Rightarrow>
                             process_files w prompt api_key rest
                               (results @ [result(''original_filename'' \<mapsto> PyStr original_filename)])
                               st2
                         | (Inl e, st2) \<Rightarrow>
                             process_files w prompt api_key rest
                               (results @
                                  [[''original_filename'' \<mapsto> PyStr original_filename,
                                    ''error'' \<mapsto> PyStr (exc_msg e),
                                    ''success'' \<mapsto> PyBool False]])
                               st2)))
      else process_files w prompt api_key rest results st)"

text \<open>\<^verbatim>\<open>request.files.getlist(key)\<close> and \<^verbatim>\<open>request.form.get(key, default)\<close>.\<close>

definition getlist :: "('k \<times> 'v) list \<Rightarrow> 'k \<Rightarrow> 'v list" where
  "getlist md k = map snd (filter (\<lambda>kv. fst kv = k) md)"

definition form_get :: "(string \<times> string) list \<Rightarrow> string \<Rightarrow> string \<Rightarrow> string" where
  "form_get md k dflt = (case map_of md k of None \<Rightarrow> dflt | Some v \<Rightarrow> v)"

definition environ_get :: "world \<Rightarrow> string \<Rightarrow> string \<Rightarrow> string" where
  "environ_get w k dflt = (case environ w k of None \<Rightarrow> dflt | Some v \<Rightarrow> v)"

text \<open>Line 41, the credential of the request.\<close>

definition request_api_key :: "world \<Rightarrow> request \<Rightarrow> string" where
  "request_api_key w req = form_get (form req) ''api_key'' (environ_get w ''GOOGLE_API_KEY'' [])"

definition process_images ::
  "world \<Rightarrow> request \<Rightarrow> state \<Rightarrow> (py_exception + http_response) \<times> state" where
  "process_images w req st =
     (if ''files[]'' \<notin> fst ` set (files req) then (Inr (ErrorBody ''No files provided'', 400), st)
      else
        (let files_list = getlist (files req) ''files[]'';
             prompt = form_get (form req) ''prompt'' [];
             api_key = request_api_key w req
         in if api_key = [] then (Inr (ErrorBody ''API key is required'', 400), st)
            else if files_list = [] \<or> length files_list = 0
              then (Inr (ErrorBody ''No files selected'', 400), st)
            else if length files_list > 10
              then (Inr (ErrorBody ''Maximum 10 files allowed'', 400), st)
            else (case process_files w prompt api_key files_list [] st of
                    (Inl e, st') \<Rightarrow> (Inl e, st')
                  | (Inr results, st') \<Rightarrow> (Inr (ResultsBody results, 200), st'))))"

section \<open>Notions used to state the properties\<close>

fun is_remote_call :: "event \<Rightarrow> bool" where
  "is_remote_call (RemoteCall client model_name prompt) = True"
| "is_remote_call (UploadSaved p) = False"
| "is_remote_call (ImageSaved p) = False"

definition remote_calls :: "state \<Rightarrow> event list" where
  "remote_calls st = filter is_remote_call (trace st)"

text \<open>The base name \<^verbatim>\<open>process_image\<close> derives from the path of its input (line 96).\<close>

definition base_name_of :: "string \<Rightarrow> string" where
  "base_name_of image_path = fst (os_path_splitext (os_path_basename image_path))"

text \<open>The path under which the loop of the request handler stores an upload (lines 57 to 59).\<close>

definition upload_path :: "world \<Rightarrow> state \<Rightarrow> upload \<Rightarrow> string" where
  "upload_path w st file =
     os_path_join UPLOAD_FOLDER (fst (uuid4 w st) @ ''_'' @ secure_filename w (filename file))"

text \<open>The files of the request, as line 39 reads them.\<close>

definition request_files :: "request \<Rightarrow> upload list" where
  "request_files req = getlist (files req) ''files[]''"

text \<open>A response that holds no inline image payload, in any part of any candidate.\<close>

definition candidate_parts :: "candidate \<Rightarrow> part list" where
  "candidate_parts c =
     (case content c of
        None \<Rightarrow> []
      | Some ct \<Rightarrow> (case parts ct of None \<Rightarrow> [] | Some ps \<Rightarrow> ps))"

definition response_candidates :: "response \<Rightarrow> candidate list" where
  "response_candidates resp = (case candidates resp of None \<Rightarrow> [] | Some cs \<Rightarrow> cs)"

definition no_inline_payload :: "response \<Rightarrow> bool" where
  "no_inline_payload resp =
     list_all (\<lambda>p. part_payload p = None) (concat (map candidate_parts (response_candidates resp)))"

text \<open>
  The rejection condition in the words of the specification: no files field, an empty
  file list, no file left after the extension filter, more than ten files, or no
  credential in the request and none in the environment.
\<close>

definition absent_or_empty :: "string option \<Rightarrow> bool" where
  "absent_or_empty v = (case v of None \<Rightarrow> True | Some s \<Rightarrow> s = [])"

definition spec_validation_error :: "world \<Rightarrow> request \<Rightarrow> bool" where
  "spec_validation_error w req =
     (''files[]'' \<notin> fst ` set (files req)
      \<or> request_files req = []
      \<or> filter accepted (request_files req) = []
      \<or> length (request_files req) > 10
      \<or> (absent_or_empty (map_of (form req) ''api_key'')
           \<and> absent_or_empty (environ w ''GOOGLE_API_KEY'')))"

text \<open>
  What is recorded of the time one image took: the rounded difference of two
  successive readings of the clock, which is the float nearest to some multiple of one
  hundredth, or an infinity.
\<close>

definition time_recorded :: "world \<Rightarrow> pydict \<Rightarrow> bool" where
  "time_recorded w r =
     (\<exists>n t. r ''processing_time'' = Some (PyFloat t)
          \<and> t = py_round2 (float_sub (clock_reading w (Suc n)) (clock_reading w n))
          \<and> ((\<exists>k. t = ieee_round (of_int k / 100)) \<or> t = PosInf \<or> t = NegInf)
          \<and> ((\<forall>n. clock_reading w n \<le> clock_reading w (Suc n)) \<longrightarrow> float_nonneg t))"

text \<open>
  An entry of the response that a call of \<^verbatim>\<open>process_image\<close> with the given
  credential produced; and, when its error is the configuration error, the client
  library is unavailable, unless the call caught an exception with that very message.
\<close>

definition entry_of_call :: "world \<Rightarrow> string \<Rightarrow> string \<Rightarrow> pydict \<Rightarrow> bool" where
  "entry_of_call w prompt api_key r =
     (\<exists>image_path name st res st'.
        process_image w image_path prompt api_key PREPROCESSED_DIR GEMINI_OUTPUT_DIR st
          = (Inr res, st')
        \<and> r = res(''original_filename'' \<mapsto> PyStr name)
        \<and> (r ''error'' = Some (PyStr ''SDK or API key missing'') \<longrightarrow>
             \<not> SDK_AVAILABLE w
             \<or> (\<exists>e. fst (process_image_try w image_path (base_name_of image_path) prompt api_key
                            PREPROCESSED_DIR GEMINI_OUTPUT_DIR initial_result
                            (snd (time_time w st))) = Inl e
                    \<and> exc_msg e = ''SDK or API key missing'')))"

section \<open>Concrete worlds and inputs\<close>

definition demo_image :: image where
  "demo_image = \<lparr>mode = ''RGB'', img_size = (1, 1), pixels = [10, 20, 30]\<rparr>"

definition rgba_image :: image where
  "rgba_image = \<lparr>mode = ''RGBA'', img_size = (1, 1), pixels = [10, 20, 30, 255]\<rparr>"

definition demo_response :: response where
  "demo_response =
     \<lparr>candidates =
        Some [\<lparr>content =
                 Some \<lparr>parts = Some [\<lparr>inline_data = None\<rparr>,
                                      \<lparr>inline_data = Some \<lparr>data = Some [7, 7]\<rparr>\<rparr>]\<rparr>\<rparr>]\<rparr>"

definition text_only_response :: response where
  "text_only_response =
     \<lparr>candidates =
        Some [\<lparr>content =
                 Some \<lparr>parts = Some [\<lparr>inline_data = None\<rparr>,
                                      \<lparr>inline_data = Some \<lparr>data = Some []\<rparr>\<rparr>]\<rparr>\<rparr>]\<rparr>"

definition no_candidates_response :: response where
  "no_candidates_response = \<lparr>candidates = Some []\<rparr>"

definition no_content_response :: response where
  "no_content_response = \<lparr>candidates = Some [\<lparr>content = None\<rparr>]\<rparr>"

text \<open>A world in which every library call succeeds and the remote service answers with an image.\<close>

definition demo_world :: world where
  "demo_world =
     \<lparr>SDK_AVAILABLE = True,
      environ = Map.empty,
      clock = (\<lambda>n. of_nat n * (5 / 4)),
      uuids = (\<lambda>n. if n = 0 then ''u0'' else ''u1''),
      secure_filename = (\<lambda>s. s),
      FileStorage_save = (\<lambda>f p. Inr ()),
      Image_open = (\<lambda>p. Inr demo_image),
      Image_open_bytes = (\<lambda>bs. Inr \<lparr>mode = ''RGB'', img_size = (1, 1), pixels = bs\<rparr>),
      Image_convert = (\<lambda>img m. Inr (img\<lparr>mode := m\<rparr>)),
      Image_save = (\<lambda>img p. Inr ()),
      paste_on_background = (\<lambda>img c. Inr (img\<lparr>mode := ''RGB''\<rparr>)),
      cv_from_pil = (\<lambda>img. Inr (pixels img)),
      cv_GaussianBlur = (\<lambda>a k s. Inr a),
      cv_to_pil = (\<lambda>a. Inr \<lparr>mode = ''RGB'', img_size = (1, 1), pixels = a\<rparr>),
      rembg_remove = (\<lambda>img. Inr (img\<lparr>mode := ''RGBA''\<rparr>)),
      genai_Client = (\<lambda>k. Inr k),
      generate_content = (\<lambda>c m p img. Inr demo_response)\<rparr>"

text \<open>The same world with the remote client library missing.\<close>

definition no_sdk_world :: world where
  "no_sdk_world = demo_world\<lparr>SDK_AVAILABLE := False\<rparr>"

text \<open>Worlds in which one library call raises.\<close>

definition unreadable_world :: world where
  "unreadable_world =
     no_sdk_world\<lparr>Image_open :=
       (\<lambda>p. Inl (PyException ''UnidentifiedImageError'' ''cannot identify image file''))\<rparr>"

definition blur_failing_world :: world where
  "blur_failing_world =
     demo_world\<lparr>cv_GaussianBlur := (\<lambda>a k s. Inl (PyException ''error'' ''OpenCV failure''))\<rparr>"

definition segmentation_failing_world :: world where
  "segmentation_failing_world =
     demo_world\<lparr>rembg_remove := (\<lambda>img. Inl (PyException ''RuntimeError'' ''model not loaded''))\<rparr>"

definition transport_failing_world :: world where
  "transport_failing_world =
     demo_world\<lparr>generate_content :=
       (\<lambda>c m p img. Inl (PyException ''ServerError'' ''503 UNAVAILABLE''))\<rparr>"

definition text_only_world :: world where
  "text_only_world = demo_world\<lparr>generate_content := (\<lambda>c m p img. Inr text_only_response)\<rparr>"

definition no_candidates_world :: world where
  "no_candidates_world =
     demo_world\<lparr>generate_content := (\<lambda>c m p img. Inr no_candidates_response)\<rparr>"

definition no_content_world :: world where
  "no_content_world =
     demo_world\<lparr>generate_content := (\<lambda>c m p img. Inr no_content_response)\<rparr>"

text \<open>A world whose clock goes on, and one whose clock is set back after the first reading.\<close>

definition ticking_world :: world where
  "ticking_world = transport_failing_world\<lparr>clock := (\<lambda>n. if n = 0 then 5 else 10)\<rparr>"

definition clock_set_back_world :: world where
  "clock_set_back_world = demo_world\<lparr>clock := (\<lambda>n. if n = 0 then 10 else 5)\<rparr>"

text \<open>A world whose environment holds a credential.\<close>

definition env_key_world :: world where
  "env_key_world = demo_world\<lparr>environ := [''GOOGLE_API_KEY'' \<mapsto> ''from-env'']\<rparr>"

definition st0 :: state where
  "st0 = \<lparr>clock_reads = 0, uuid_draws = 0, trace = []\<rparr>"

definition png_upload :: upload where
  "png_upload = \<lparr>filename = ''a.png'', stream = [1, 2, 3]\<rparr>"

definition jpg_upload :: upload where
  "jpg_upload = \<lparr>filename = ''b.JPG'', stream = [4, 5]\<rparr>"

definition gif_upload :: upload where
  "gif_upload = \<lparr>filename = ''c.gif'', stream = [6]\<rparr>"

definition mixed_request :: request where
  "mixed_request =
     \<lparr>files = [(''files[]'', png_upload), (''files[]'', gif_upload), (''files[]'', jpg_upload)],
      form = [(''prompt'', ''white background''), (''api_key'', ''k'')]\<rparr>"

definition png_only_request :: request where
  "png_only_request =
     \<lparr>files = [(''files[]'', png_upload)], form = [(''prompt'', ''p''), (''api_key'', ''k'')]\<rparr>"

definition gif_only_request :: request where
  "gif_only_request =
     \<lparr>files = [(''files[]'', gif_upload)], form = [(''api_key'', ''k'')]\<rparr>"

definition eleven_files_request :: request where
  "eleven_files_request =
     \<lparr>files = (''files[]'', png_upload) # replicate 10 (''files[]'', gif_upload),
      form = [(''api_key'', ''k'')]\<rparr>"

definition empty_key_request :: request where
  "empty_key_request = \<lparr>files = [(''files[]'', png_upload)], form = [(''api_key'', [])]\<rparr>"

definition no_key_request :: request where
  "no_key_request = \<lparr>files = [(''files[]'', png_upload)], form = []\<rparr>"

section \<open>Evaluation of the concrete worlds\<close>

lemmas world_defs =
  demo_world_def no_sdk_world_def unreadable_world_def blur_failing_world_def
  segmentation_failing_world_def transport_failing_world_def text_only_world_def
  no_candidates_world_def demo_image_def rgba_image_def
  demo_response_def text_only_response_def no_candidates_response_def st0_def
  png_upload_def jpg_upload_def gif_upload_def mixed_request_def gif_only_request_def
  eleven_files_request_def no_key_request_def empty_key_request_def env_key_world_def
  no_content_response_def no_content_world_def png_only_request_def

lemmas string_defs =
  os_path_join_def os_path_basename_def os_path_splitext_def lower_char_def str_lower_def
  rsplit_dot_last_def base_name_of_def UPLOAD_FOLDER_def OUTPUT_DIR_def PREPROCESSED_DIR_def
  GEMINI_OUTPUT_DIR_def ALLOWED_EXTENSIONS_def allowed_file_def accepted_def
  GEMINI_MODEL_NAME_def

lemmas pipeline_defs =
  blur_image_def reduce_noise_cv_try_def reduce_noise_cv_def remove_background_rembg_try_def
  remove_background_rembg_def part_payload_def response_parts_def rgb_image_to_send_def
  call_gemini_try_def call_gemini_image_editing_def initial_result_def gemini_editing_step_def
  process_image_try_def process_image_def log_event_def time_time_def uuid4_def quoted_def

lemmas handler_defs =
  getlist_def form_get_def environ_get_def request_api_key_def process_images_def
  request_files_def upload_path_def

section \<open>The preprocessing steps\<close>

lemma reduce_noise_cv_total: "\<exists>out. reduce_noise_cv w pil_image = Inr out"
  by (simp add: reduce_noise_cv_def split: prod.splits sum.splits)

lemma remove_background_rembg_total:
  "\<exists>out. remove_background_rembg w pil_image bg_color = Inr out"
  by (simp add: remove_background_rembg_def split: sum.splits)

text \<open>What each step returns when its transform raises.\<close>

lemma remove_background_rembg_fallback:
  "remove_background_rembg_try w pil_image bg_color = Inl e
   \<Longrightarrow> remove_background_rembg w pil_image bg_color = Inr pil_image"
  by (simp add: remove_background_rembg_def)

lemma reduce_noise_cv_fallback_unconverted:
  "mode pil_image \<notin> set [''RGBA'', ''P''] \<Longrightarrow> blur_image w pil_image = Inl e
   \<Longrightarrow> reduce_noise_cv w pil_image = Inr pil_image"
  by (simp add: reduce_noise_cv_def reduce_noise_cv_try_def)

lemma reduce_noise_cv_fallback_convert_raises:
  "mode pil_image \<in> set [''RGBA'', ''P''] \<Longrightarrow> Image_convert w pil_image ''RGB'' = Inl e
   \<Longrightarrow> reduce_noise_cv w pil_image = Inr pil_image"
  by (simp add: reduce_noise_cv_def reduce_noise_cv_try_def)

lemma reduce_noise_cv_fallback_converted:
  "mode pil_image \<in> set [''RGBA'', ''P''] \<Longrightarrow> Image_convert w pil_image ''RGB'' = Inr converted
   \<Longrightarrow> blur_image w converted = Inl e
   \<Longrightarrow> reduce_noise_cv w pil_image = Inr converted"
  by (simp add: reduce_noise_cv_def reduce_noise_cv_try_def)

text \<open>
  C9: the noise-reduction step and the background-removal step return an image in every
  world and for every input, whatever their library calls do; the generative edit step
  does raise, here on a failure of the transport.
\<close>

theorem preprocessing_steps_never_raise:
  "(\<exists>out. reduce_noise_cv w pil_image = Inr out)
   \<and> (\<exists>out. remove_background_rembg w pil_image bg_color = Inr out)
   \<and> fst (call_gemini_image_editing transport_failing_world ''k'' GEMINI_MODEL_NAME ''p''
            (Some demo_image) st0)
       = Inl (PyException ''Exception'' ''Gemini API error: 503 UNAVAILABLE'')"
  by (simp add: reduce_noise_cv_total remove_background_rembg_total
      call_gemini_image_editing_def call_gemini_try_def transport_failing_world_def
      demo_world_def demo_image_def rgb_image_to_send_def Let_def)

theorem preprocessing_steps_never_raise_witness:
  "reduce_noise_cv blur_failing_world demo_image = Inr demo_image
   \<and> remove_background_rembg segmentation_failing_world demo_image (255, 255, 255, 0)
       = Inr demo_image"
  using preprocessing_steps_never_raise [of blur_failing_world demo_image "(255, 255, 255, 0)"]
    preprocessing_steps_never_raise [of segmentation_failing_world demo_image "(255, 255, 255, 0)"]
  by (simp add: world_defs pipeline_defs)

text \<open>
  C5, at the input where the code departs from it: an RGBA image whose conversion to
  RGB succeeds and whose blur raises. Line 32 has rebound \<^verbatim>\<open>pil_image\<close> to the
  converted copy, and the handler of line 36 returns that copy, not the image the step
  was given.
\<close>

theorem reduce_noise_cv_returns_converted_image:
  "reduce_noise_cv blur_failing_world rgba_image = Inr (rgba_image\<lparr>mode := ''RGB''\<rparr>)
   \<and> rgba_image\<lparr>mode := ''RGB''\<rparr> \<noteq> rgba_image"
  by (simp add: reduce_noise_cv_def reduce_noise_cv_try_def blur_image_def
      blur_failing_world_def demo_world_def rgba_image_def)

section \<open>The result of one image\<close>

lemma process_image_try_cases:
  assumes "process_image_try w ip base prompt key pd gd initial_result st = (outcome, r, st')"
  shows "(outcome = Inr () \<and> r ''success'' = Some (PyBool True)
            \<and> (\<exists>p. r ''preprocessed_path'' = Some (PyStr p))
            \<and> (\<exists>g. r ''gemini_path'' = Some (PyStr g))
            \<and> r ''error'' = Some PyNone)
         \<or> (r ''success'' = Some (PyBool False) \<and> r ''gemini_path'' = Some PyNone)"
  using assms
  by (auto simp: process_image_try_def gemini_editing_step_def initial_result_def Let_def
      split: sum.splits prod.splits option.splits if_splits)

lemma process_image_total:
  "\<exists>r st'. process_image w image_path prompt api_key pd gd st = (Inr r, st')"
  by (simp add: process_image_def Let_def split: prod.splits)

text \<open>
  C1: \<^verbatim>\<open>process_image\<close> always returns a result, and in it \<open>success\<close> is true
  exactly when the preprocessed path and the edited path are both strings and the error
  is None.
\<close>

theorem process_image_success_iff:
  "\<exists>r st'. process_image w image_path prompt api_key pd gd st = (Inr r, st')
     \<and> (r ''success'' = Some (PyBool True) \<or> r ''success'' = Some (PyBool False))
     \<and> (r ''success'' = Some (PyBool True) \<longleftrightarrow>
          (\<exists>p. r ''preprocessed_path'' = Some (PyStr p))
          \<and> (\<exists>g. r ''gemini_path'' = Some (PyStr g))
          \<and> r ''error'' = Some PyNone)"
proof -
  obtain t0 st1 where t: "time_time w st = (t0, st1)" by force
  obtain outcome r st2 where
    b: "process_image_try w image_path (fst (os_path_splitext (os_path_basename image_path)))
          prompt api_key pd gd initial_result st1 = (outcome, r, st2)"
    using prod_cases3 by blast
  obtain t1 st3 where t': "time_time w st2 = (t1, st3)" by force
  from process_image_try_cases[OF b] show ?thesis
    by (cases outcome) (auto simp: process_image_def t b t' Let_def)
qed

theorem process_image_success_iff_witness:
  "\<exists>r st'. process_image demo_world ''uploads/u0_a.png'' ''p'' ''k'' PREPROCESSED_DIR
              GEMINI_OUTPUT_DIR st0 = (Inr r, st')
     \<and> r ''success'' = Some (PyBool True) \<and> r ''error'' = Some PyNone
     \<and> r ''gemini_path'' = Some (PyStr ''gemini_edited/u0_a_gemini.png'')
     \<and> r ''preprocessed_path'' = Some (PyStr ''preprocessed/u0_a_pre.png'')"
  using process_image_success_iff
    [of demo_world "''uploads/u0_a.png''" "''p''" "''k''" PREPROCESSED_DIR GEMINI_OUTPUT_DIR st0]
  by (simp add: world_defs string_defs pipeline_defs Let_def)

section \<open>Without the remote service\<close>

lemma remote_calls_log_saved [simp]:
  "remote_calls (log_event (ImageSaved p) st) = remote_calls st"
  "remote_calls (log_event (UploadSaved p) st) = remote_calls st"
  by (simp_all add: remote_calls_def log_event_def)

lemma remote_calls_time [simp]: "remote_calls (snd (time_time w st)) = remote_calls st"
  by (simp add: remote_calls_def time_time_def)

lemma process_image_try_unconfigured:
  assumes "\<not> SDK_AVAILABLE w \<or> api_key = []"
    and "process_image_try w ip base prompt api_key pd gd initial_result st = (outcome, r, st')"
  shows "r ''success'' = Some (PyBool False) \<and> r ''gemini_path'' = Some PyNone
     \<and> remote_calls st' = remote_calls st"
  using assms
  by (auto simp: process_image_try_def gemini_editing_step_def initial_result_def Let_def
      split: sum.splits)

lemma process_image_try_unconfigured_preprocessed:
  assumes "\<not> SDK_AVAILABLE w \<or> api_key = []"
    and "Image_open w ip = Inr img"
    and "reduce_noise_cv w img = Inr denoised"
    and "remove_background_rembg w denoised (255, 255, 255, 0) = Inr bg_removed"
    and "Image_save w bg_removed (os_path_join pd (base @ ''_pre.png'')) = Inr ()"
  shows "process_image_try w ip base prompt api_key pd gd initial_result st =
     (Inr (),
      initial_result(''preprocessed_path'' \<mapsto> PyStr (os_path_join ''preprocessed'' (base @ ''_pre.png'')),
                     ''error'' \<mapsto> PyStr ''SDK or API key missing''),
      log_event (ImageSaved (os_path_join pd (base @ ''_pre.png''))) st)"
  using assms
  by (auto simp: process_image_try_def gemini_editing_step_def Let_def)

text \<open>
  C7, as amended: when the client library is unavailable or the credential is empty,
  \<^verbatim>\<open>process_image\<close> makes no remote call and returns a result with \<open>success\<close>
  false and no edited path; and when the image was opened and the preprocessed
  artifact written, the error is the configuration error and the preprocessed path is
  there.
\<close>

theorem configuration_error_without_remote_call:
  assumes "\<not> SDK_AVAILABLE w \<or> api_key = []"
  shows "\<exists>r st'. process_image w image_path prompt api_key pd gd st = (Inr r, st')
     \<and> r ''success'' = Some (PyBool False) \<and> r ''gemini_path'' = Some PyNone
     \<and> remote_calls st' = remote_calls st
     \<and> (\<forall>img denoised bg_removed.
           Image_open w image_path = Inr img \<longrightarrow>
           reduce_noise_cv w img = Inr denoised \<longrightarrow>
           remove_background_rembg w denoised (255, 255, 255, 0) = Inr bg_removed \<longrightarrow>
           Image_save w bg_removed (os_path_join pd (base_name_of image_path @ ''_pre.png'')) = Inr () \<longrightarrow>
             r ''error'' = Some (PyStr ''SDK or API key missing'')
             \<and> r ''preprocessed_path'' =
                 Some (PyStr (os_path_join ''preprocessed'' (base_name_of image_path @ ''_pre.png''))))"
proof -
  obtain t0 st1 where t: "time_time w st = (t0, st1)" by force
  obtain outcome r st2 where
    b: "process_image_try w image_path (base_name_of image_path)
          prompt api_key pd gd initial_result st1 = (outcome, r, st2)"
    using prod_cases3 by blast
  obtain t1 st3 where t': "time_time w st2 = (t1, st3)" by force
  have st1: "remote_calls st1 = remote_calls st"
    using remote_calls_time[of w st] t by simp
  have st3: "remote_calls st3 = remote_calls st2"
    using remote_calls_time[of w st2] t' by simp
  note u = process_image_try_unconfigured[OF assms b]
  define r' where "r' = (case outcome of Inl e \<Rightarrow> r(''error'' \<mapsto> PyStr (exc_msg e)) | Inr _ \<Rightarrow> r)
              (''processing_time'' \<mapsto> PyFloat (py_round2 (float_sub t1 t0)))"
  have pi: "process_image w image_path prompt api_key pd gd st = (Inr r', st3)"
    using b by (simp add: process_image_def t t' Let_def base_name_of_def r'_def)
  have basic: "r' ''success'' = Some (PyBool False) \<and> r' ''gemini_path'' = Some PyNone"
    using u by (cases outcome) (simp_all add: r'_def)
  have pre: "r' ''error'' = Some (PyStr ''SDK or API key missing'')
      \<and> r' ''preprocessed_path'' =
          Some (PyStr (os_path_join ''preprocessed'' (base_name_of image_path @ ''_pre.png'')))"
    if "Image_open w image_path = Inr img" "reduce_noise_cv w img = Inr denoised"
      "remove_background_rembg w denoised (255, 255, 255, 0) = Inr bg_removed"
      "Image_save w bg_removed (os_path_join pd (base_name_of image_path @ ''_pre.png'')) = Inr ()"
    for img denoised bg_removed
  proof -
    from process_image_try_unconfigured_preprocessed[OF assms that, of prompt gd st1] b
    have "outcome = Inr ()"
      and "r = initial_result(''preprocessed_path'' \<mapsto>
               PyStr (os_path_join ''preprocessed'' (base_name_of image_path @ ''_pre.png'')),
             ''error'' \<mapsto> PyStr ''SDK or API key missing'')"
      by simp_all
    then show ?thesis by (simp add: r'_def)
  qed
  from pi basic pre u st1 st3 show ?thesis by auto
qed

theorem configuration_error_without_remote_call_witness:
  "\<not> SDK_AVAILABLE no_sdk_world
   \<and> (\<exists>r st'. process_image no_sdk_world ''uploads/u0_a.png'' ''p'' ''k'' PREPROCESSED_DIR
                 GEMINI_OUTPUT_DIR st0 = (Inr r, st')
         \<and> r ''success'' = Some (PyBool False)
         \<and> r ''gemini_path'' = Some PyNone
         \<and> r ''error'' = Some (PyStr ''SDK or API key missing'')
         \<and> r ''preprocessed_path'' = Some (PyStr ''preprocessed/u0_a_pre.png'')
         \<and> remote_calls st' = [])"
proof -
  have h: "\<not> SDK_AVAILABLE no_sdk_world \<or> ''k'' = []"
    by (simp add: world_defs)
  from configuration_error_without_remote_call
    [OF h, of "''uploads/u0_a.png''" "''p''" PREPROCESSED_DIR GEMINI_OUTPUT_DIR st0]
  show ?thesis
    by (simp add: world_defs string_defs pipeline_defs remote_calls_def Let_def)
qed

text \<open>
  C7 as stated fails for an image that cannot be opened: the result then carries the
  message of that exception and no preprocessed path.
\<close>

theorem configuration_error_counterexample:
  "\<not> SDK_AVAILABLE unreadable_world
   \<and> (\<exists>r st'. process_image unreadable_world ''uploads/u0_a.png'' ''p'' ''k'' PREPROCESSED_DIR
                 GEMINI_OUTPUT_DIR st0 = (Inr r, st')
         \<and> r ''error'' = Some (PyStr ''cannot identify image file'')
         \<and> r ''preprocessed_path'' = Some PyNone)"
  by (simp add: world_defs string_defs pipeline_defs Let_def)

section \<open>A response without an image\<close>

lemma first_inline_image_none:
  "list_all (\<lambda>p. part_payload p = None) ps \<Longrightarrow> first_inline_image w ps = Inr None"
  by (induction ps) simp_all

lemma call_gemini_image_editing_no_payload:
  assumes "SDK_AVAILABLE w"
    and "genai_Client w api_key = Inr client"
    and "rgb_image_to_send w img = Inr image_to_send"
    and "generate_content w client model_name prompt image_to_send = Inr resp"
    and "response_parts resp = Inr ps"
    and "list_all (\<lambda>p. part_payload p = None) ps"
  shows "call_gemini_image_editing w api_key model_name prompt (Some img) st =
     (Inr None, log_event (RemoteCall client model_name prompt) st)"
  using assms
  by (simp add: call_gemini_image_editing_def call_gemini_try_def first_inline_image_none Let_def)

lemma process_image_editing_failed:
  assumes "SDK_AVAILABLE w" and "api_key \<noteq> []"
    and "Image_open w image_path = Inr img"
    and "reduce_noise_cv w img = Inr denoised"
    and "remove_background_rembg w denoised (255, 255, 255, 0) = Inr bg_removed"
    and "Image_save w bg_removed (os_path_join pd (base_name_of image_path @ ''_pre.png'')) = Inr ()"
    and "genai_Client w api_key = Inr client"
    and "rgb_image_to_send w bg_removed = Inr image_to_send"
    and "generate_content w client GEMINI_MODEL_NAME prompt image_to_send = Inr resp"
    and "response_parts resp = Inr ps"
    and "list_all (\<lambda>p. part_payload p = None) ps"
  shows "\<exists>r st'. process_image w image_path prompt api_key pd gd st = (Inr r, st')
     \<and> r ''success'' = Some (PyBool False)
     \<and> r ''error'' = Some (PyStr ''Gemini editing failed'')
     \<and> r ''gemini_path'' = Some PyNone
     \<and> r ''preprocessed_path'' =
          Some (PyStr (os_path_join ''preprocessed'' (base_name_of image_path @ ''_pre.png'')))"
  using assms(1-6)
  by (simp add: process_image_def process_image_try_def gemini_editing_step_def
      call_gemini_image_editing_no_payload[OF assms(1) assms(7-11)]
      initial_result_def base_name_of_def Let_def split: prod.splits)

lemma no_inline_payload_first:
  assumes "no_inline_payload resp"
    and "candidates resp = Some (c # cs)"
    and "content c = Some ct"
    and "parts ct = Some ps"
  shows "response_parts resp = Inr ps \<and> list_all (\<lambda>p. part_payload p = None) ps"
  using assms
  by (simp add: no_inline_payload_def response_candidates_def candidate_parts_def
      response_parts_def)

text \<open>
  C6, as amended: when the remote call returns a response whose list of candidates is
  there and not empty, whose first candidate has a content with a list of parts, and
  which holds no inline image payload, the result has \<open>success\<close> false, the error
  \<open>Gemini editing failed\<close>, no edited path, and the preprocessed path.
\<close>

theorem no_image_payload_reports_editing_failed:
  assumes "SDK_AVAILABLE w" and "api_key \<noteq> []"
    and "Image_open w image_path = Inr img"
    and "reduce_noise_cv w img = Inr denoised"
    and "remove_background_rembg w denoised (255, 255, 255, 0) = Inr bg_removed"
    and "Image_save w bg_removed (os_path_join pd (base_name_of image_path @ ''_pre.png'')) = Inr ()"
    and "genai_Client w api_key = Inr client"
    and "rgb_image_to_send w bg_removed = Inr image_to_send"
    and "generate_content w client GEMINI_MODEL_NAME prompt image_to_send = Inr resp"
    and "candidates resp = Some (c # cs)"
    and "content c = Some ct"
    and "parts ct = Some ps"
    and "no_inline_payload resp"
  shows "\<exists>r st'. process_image w image_path prompt api_key pd gd st = (Inr r, st')
     \<and> r ''success'' = Some (PyBool False)
     \<and> r ''error'' = Some (PyStr ''Gemini editing failed'')
     \<and> r ''gemini_path'' = Some PyNone
     \<and> r ''preprocessed_path'' =
          Some (PyStr (os_path_join ''preprocessed'' (base_name_of image_path @ ''_pre.png'')))"
proof -
  from no_inline_payload_first[OF assms(13) assms(10-12)]
  have p: "response_parts resp = Inr ps" and l: "list_all (\<lambda>p. part_payload p = None) ps"
    by simp_all
  from process_image_editing_failed[OF assms(1-9) p l] show ?thesis .
qed

theorem no_image_payload_reports_editing_failed_witness:
  "SDK_AVAILABLE text_only_world
   \<and> generate_content text_only_world ''k'' GEMINI_MODEL_NAME ''p''
        \<lparr>mode = ''RGB'', img_size = (1, 1), pixels = [10, 20, 30]\<rparr> = Inr text_only_response
   \<and> no_inline_payload text_only_response
   \<and> (\<exists>r st'. process_image text_only_world ''uploads/u0_a.png'' ''p'' ''k'' PREPROCESSED_DIR
                 GEMINI_OUTPUT_DIR st0 = (Inr r, st')
         \<and> r ''success'' = Some (PyBool False)
         \<and> r ''error'' = Some (PyStr ''Gemini editing failed'')
         \<and> r ''gemini_path'' = Some PyNone
         \<and> r ''preprocessed_path'' = Some (PyStr ''preprocessed/u0_a_pre.png''))"
proof -
  let ?c = "\<lparr>content = Some \<lparr>parts = Some [\<lparr>inline_data = None\<rparr>,
                                             \<lparr>inline_data = Some \<lparr>data = Some []\<rparr>\<rparr>]\<rparr>\<rparr>"
  have h1: "SDK_AVAILABLE text_only_world" and h2: "''k'' \<noteq> []"
    and h3: "Image_open text_only_world ''uploads/u0_a.png'' = Inr demo_image"
    and h4: "reduce_noise_cv text_only_world demo_image = Inr demo_image"
    and h5: "remove_background_rembg text_only_world demo_image (255, 255, 255, 0)
               = Inr (demo_image\<lparr>mode := ''RGBA''\<rparr>)"
    and h6: "Image_save text_only_world (demo_image\<lparr>mode := ''RGBA''\<rparr>)
               (os_path_join PREPROCESSED_DIR (base_name_of ''uploads/u0_a.png'' @ ''_pre.png''))
               = Inr ()"
    and h7: "genai_Client text_only_world ''k'' = Inr ''k''"
    and h8: "rgb_image_to_send text_only_world (demo_image\<lparr>mode := ''RGBA''\<rparr>) = Inr demo_image"
    and h9: "generate_content text_only_world ''k'' GEMINI_MODEL_NAME ''p'' demo_image
               = Inr text_only_response"
    and h10: "candidates text_only_response = Some (?c # [])"
    and h11: "content ?c = Some \<lparr>parts = Some [\<lparr>inline_data = None\<rparr>,
                                             \<lparr>inline_data = Some \<lparr>data = Some []\<rparr>\<rparr>]\<rparr>"
    and h12: "parts \<lparr>parts = Some [\<lparr>inline_data = None\<rparr>,
                                 \<lparr>inline_data = Some \<lparr>data = Some []\<rparr>\<rparr>]\<rparr>
                = Some [\<lparr>inline_data = None\<rparr>, \<lparr>inline_data = Some \<lparr>data = Some []\<rparr>\<rparr>]"
    and h13: "no_inline_payload text_only_response"
    by (simp_all add: world_defs pipeline_defs no_inline_payload_def response_candidates_def
        candidate_parts_def)
  from no_image_payload_reports_editing_failed
    [OF h1 h2 h3 h4 h5 h6 h7 h8 h9 h10 h11 h12 h13, of GEMINI_OUTPUT_DIR st0]
  show ?thesis using h1 h9 h13
    by (simp add: string_defs demo_image_def)
qed

text \<open>
  C6 as stated fails for a response without candidates: line 75 raises IndexError, which
  line 82 wraps, and the error of the result is that of a failed remote call.
\<close>

theorem no_image_payload_counterexample:
  "generate_content no_candidates_world ''k'' GEMINI_MODEL_NAME ''p''
        \<lparr>mode = ''RGB'', img_size = (1, 1), pixels = [10, 20, 30]\<rparr> = Inr no_candidates_response
   \<and> no_inline_payload no_candidates_response
   \<and> (\<exists>r st'. process_image no_candidates_world ''uploads/u0_a.png'' ''p'' ''k'' PREPROCESSED_DIR
                 GEMINI_OUTPUT_DIR st0 = (Inr r, st')
         \<and> remote_calls st' = [RemoteCall ''k'' GEMINI_MODEL_NAME ''p'']
         \<and> r ''error'' = Some (PyStr ''Gemini API error: list index out of range'')
         \<and> r ''error'' \<noteq> Some (PyStr ''Gemini editing failed''))"
  by (simp add: world_defs string_defs pipeline_defs no_inline_payload_def
      response_candidates_def candidate_parts_def remote_calls_def Let_def)

text \<open>
  It fails as well for a response whose first candidate has no content: reading
  \<open>parts\<close> of None raises AttributeError, wrapped in the same way.
\<close>

lemma missing_content_is_remote_failure:
  "no_inline_payload no_content_response
   \<and> (\<exists>r st'. process_image no_content_world ''uploads/u0_a.png'' ''p'' ''k'' PREPROCESSED_DIR
                 GEMINI_OUTPUT_DIR st0 = (Inr r, st')
         \<and> r ''error'' =
             Some (PyStr (''Gemini API error: '' @ quoted ''NoneType''
                          @ '' object has no attribute '' @ quoted ''parts'')))"
  by (simp add: world_defs string_defs pipeline_defs no_inline_payload_def
      response_candidates_def candidate_parts_def Let_def)

section \<open>Exceptions in the pipeline of one file\<close>

lemma process_image_on_exception:
  assumes "fst (process_image_try w image_path (base_name_of image_path) prompt api_key pd gd
                  initial_result (snd (time_time w st))) = Inl e"
  shows "\<exists>r st'. process_image w image_path prompt api_key pd gd st = (Inr r, st')
     \<and> r ''success'' = Some (PyBool False)
     \<and> r ''error'' = Some (PyStr (exc_msg e))"
proof -
  obtain t0 st1 where t: "time_time w st = (t0, st1)" by force
  obtain outcome r st2 where
    b: "process_image_try w image_path (base_name_of image_path)
          prompt api_key pd gd initial_result st1 = (outcome, r, st2)"
    using prod_cases3 by blast
  obtain t1 st3 where t': "time_time w st2 = (t1, st3)" by force
  from assms t b have o: "outcome = Inl e" by simp
  from process_image_try_cases[OF b] o have "r ''success'' = Some (PyBool False)" by auto
  then show ?thesis
    using b o by (simp add: process_image_def t t' Let_def base_name_of_def)
qed

text \<open>Where the pipeline raises: opening the image, writing an artifact, the remote call.\<close>

lemma process_image_try_open_raises:
  "Image_open w image_path = Inl e
   \<Longrightarrow> fst (process_image_try w image_path base prompt api_key pd gd result st) = Inl e"
  by (simp add: process_image_try_def)

lemma process_image_try_save_raises:
  assumes "Image_open w image_path = Inr img"
    and "reduce_noise_cv w img = Inr denoised"
    and "remove_background_rembg w denoised (255, 255, 255, 0) = Inr bg_removed"
    and "Image_save w bg_removed (os_path_join pd (base @ ''_pre.png'')) = Inl e"
  shows "fst (process_image_try w image_path base prompt api_key pd gd result st) = Inl e"
  using assms by (simp add: process_image_try_def Let_def)

lemma process_files_accepted_step:
  assumes "accepted file"
    and "FileStorage_save w file (upload_path w st file) = Inr ()"
    and "process_image w (upload_path w st file) prompt api_key PREPROCESSED_DIR GEMINI_OUTPUT_DIR
           (log_event (UploadSaved (upload_path w st file)) (snd (uuid4 w st))) = (Inr r, st')"
  shows "process_files w prompt api_key (file # rest) results st =
         process_files w prompt api_key rest
           (results @ [r(''original_filename'' \<mapsto> PyStr (secure_filename w (filename file)))]) st'"
proof -
  obtain u st1 where u: "uuid4 w st = (u, st1)" by force
  with assms show ?thesis by (simp add: upload_path_def Let_def)
qed

lemma process_files_skipped_step:
  "\<not> accepted file \<Longrightarrow>
     process_files w prompt api_key (file # rest) results st =
     process_files w prompt api_key rest results st"
  by simp


lemma generate_content_raises:
  assumes "genai_Client w api_key = Inr client"
    and "rgb_image_to_send w img = Inr image_to_send"
    and "generate_content w client model_name prompt image_to_send = Inl e"
  shows "fst (call_gemini_try w api_key model_name prompt img st) = Inl e"
  using assms by (simp add: call_gemini_try_def Let_def)



section \<open>Validation of the request\<close>

lemma getlist_empty_iff: "getlist md k = [] \<longleftrightarrow> k \<notin> fst ` set md"
  by (induction md) (auto simp: getlist_def)

lemma process_images_served:
  assumes "request_files req \<noteq> []"
    and "length (request_files req) \<le> 10"
    and "request_api_key w req \<noteq> []"
  shows "process_images w req st =
         (case process_files w (form_get (form req) ''prompt'' []) (request_api_key w req)
                 (request_files req) [] st of
            (Inl e, st') \<Rightarrow> (Inl e, st')
          | (Inr results, st') \<Rightarrow> (Inr (ResultsBody results, 200), st'))"
proof -
  from assms(1) have "''files[]'' \<in> fst ` set (files req)"
    by (simp add: request_files_def getlist_empty_iff)
  with assms show ?thesis
    by (simp add: process_images_def request_files_def Let_def)
qed

lemma served_not_rejected:
  assumes "request_files req \<noteq> []"
    and "length (request_files req) \<le> 10"
    and "request_api_key w req \<noteq> []"
  shows "\<nexists>msg. fst (process_images w req st) = Inr (ErrorBody msg, 400)"
  by (simp add: process_images_served[OF assms] split: prod.splits sum.splits)

text \<open>
  C3, as amended: the handler answers 400 exactly when the request has no files field,
  its file list is empty, it holds more than ten files, or its credential is empty; the
  state is then unchanged, so nothing was stored and no image processed. The files are
  counted before the extension filter, and the credential is the \<open>api_key\<close> field when
  the form has one, the environment variable otherwise.
\<close>

theorem validation_error_iff:
  "((\<exists>msg. fst (process_images w req st) = Inr (ErrorBody msg, 400)) \<longleftrightarrow>
      (''files[]'' \<notin> fst ` set (files req)
       \<or> request_files req = []
       \<or> length (request_files req) > 10
       \<or> request_api_key w req = []))
   \<and> ((\<exists>msg. fst (process_images w req st) = Inr (ErrorBody msg, 400)) \<longrightarrow>
        snd (process_images w req st) = st)"
  by (auto simp: process_images_def request_files_def Let_def split: prod.splits sum.splits)

theorem validation_error_iff_witness:
  "request_api_key demo_world no_key_request = []
   \<and> process_images demo_world no_key_request st0 = (Inr (ErrorBody ''API key is required'', 400), st0)
   \<and> length (request_files eleven_files_request) > 10
   \<and> process_images demo_world eleven_files_request st0
       = (Inr (ErrorBody ''Maximum 10 files allowed'', 400), st0)"
  using validation_error_iff[of demo_world no_key_request st0] validation_error_iff[of demo_world eleven_files_request st0]
  by (simp add: world_defs handler_defs)

text \<open>
  C3 as stated fails for a request whose only file has a disallowed extension: no file
  is left after the filter, and the answer is 200 with an empty list of results.
\<close>

theorem validation_error_counterexample:
  "spec_validation_error demo_world gif_only_request
   \<and> filter accepted (request_files gif_only_request) = []
   \<and> process_images demo_world gif_only_request st0 = (Inr (ResultsBody [], 200), st0)"
  by (simp add: spec_validation_error_def world_defs handler_defs string_defs)

text \<open>
  An empty \<open>api_key\<close> field hides the credential of the environment: the request is
  rejected although a credential is there.
\<close>

lemma form_field_overrides_environment:
  "\<not> spec_validation_error env_key_world empty_key_request
   \<and> process_images env_key_world empty_key_request st0
       = (Inr (ErrorBody ''API key is required'', 400), st0)"
  by (simp add: spec_validation_error_def absent_or_empty_def world_defs handler_defs string_defs)

section \<open>One entry for each accepted file\<close>

lemma process_files_entries:
  assumes "\<forall>f p. FileStorage_save w f p = Inr ()"
  shows "\<exists>rs st'. process_files w prompt api_key fs results st = (Inr (results @ rs), st')
     \<and> map (\<lambda>r. r ''original_filename'') rs
         = map (\<lambda>f. Some (PyStr (secure_filename w (filename f)))) (filter accepted fs)"
proof (induction fs arbitrary: results st)
  case Nil
  then show ?case by simp
next
  case (Cons upl rest)
  show ?case
  proof (cases "accepted upl")
    case False
    with Cons.IH[of results st] show ?thesis by simp
  next
    case True
    obtain r st1 where
      r: "process_image w (upload_path w st upl) prompt api_key PREPROCESSED_DIR GEMINI_OUTPUT_DIR
            (log_event (UploadSaved (upload_path w st upl)) (snd (uuid4 w st))) = (Inr r, st1)"
      using process_image_total by blast
    let ?entry = "r(''original_filename'' \<mapsto> PyStr (secure_filename w (filename upl)))"
    from assms have s: "FileStorage_save w upl (upload_path w st upl) = Inr ()" by simp
    from Cons.IH[of "results @ [?entry]" st1] obtain rs st' where
      ih: "process_files w prompt api_key rest (results @ [?entry]) st1
             = (Inr ((results @ [?entry]) @ rs), st')"
      and m: "map (\<lambda>r. r ''original_filename'') rs
         = map (\<lambda>f. Some (PyStr (secure_filename w (filename f)))) (filter accepted rest)"
      by blast
    have "process_files w prompt api_key (upl # rest) results st
            = (Inr (results @ (?entry # rs)), st')"
      using process_files_accepted_step[OF True s r, of rest results] ih by simp
    with m True show ?thesis
      by (intro exI[of _ "?entry # rs"] exI[of _ st']) simp
  qed
qed

lemma process_images_entries:
  assumes "request_files req \<noteq> []"
    and "length (request_files req) \<le> 10"
    and "request_api_key w req \<noteq> []"
    and "\<forall>f p. FileStorage_save w f p = Inr ()"
  shows "\<exists>rs st'. process_images w req st = (Inr (ResultsBody rs, 200), st')
     \<and> map (\<lambda>r. r ''original_filename'') rs
         = map (\<lambda>f. Some (PyStr (secure_filename w (filename f))))
             (filter accepted (request_files req))"
proof -
  from process_files_entries[OF assms(4), of "form_get (form req) ''prompt'' []"
      "request_api_key w req" "request_files req" "[]" st]
  obtain rs st' where
    p: "process_files w (form_get (form req) ''prompt'' []) (request_api_key w req)
          (request_files req) [] st = (Inr rs, st')"
    and m: "map (\<lambda>r. r ''original_filename'') rs
         = map (\<lambda>f. Some (PyStr (secure_filename w (filename f))))
             (filter accepted (request_files req))"
    by auto
  have "process_images w req st = (Inr (ResultsBody rs, 200), st')"
    by (simp add: process_images_served[OF assms(1-3)] p)
  with m show ?thesis by blast
qed

text \<open>
  C4, as amended: for a request that passes the validation (at most ten files in all,
  a credential) and whose uploads are all stored, the response is 200 and its results
  are one entry for each accepted file, in the order of submission; the other files
  have no entry.
\<close>

theorem results_one_per_accepted_file:
  assumes "request_files req \<noteq> []"
    and "length (request_files req) \<le> 10"
    and "request_api_key w req \<noteq> []"
    and "\<forall>f p. FileStorage_save w f p = Inr ()"
  shows "\<exists>rs st'. process_images w req st = (Inr (ResultsBody rs, 200), st')
     \<and> length rs = length (filter accepted (request_files req))
     \<and> map (\<lambda>r. r ''original_filename'') rs
         = map (\<lambda>f. Some (PyStr (secure_filename w (filename f))))
             (filter accepted (request_files req))"
proof -
  from process_images_entries[OF assms, of st] obtain rs st' where
    p: "process_images w req st = (Inr (ResultsBody rs, 200), st')"
    and m: "map (\<lambda>r. r ''original_filename'') rs
         = map (\<lambda>f. Some (PyStr (secure_filename w (filename f))))
             (filter accepted (request_files req))"
    by blast
  from m have "length (map (\<lambda>r. r ''original_filename'') rs)
      = length (map (\<lambda>f. Some (PyStr (secure_filename w (filename f))))
             (filter accepted (request_files req)))"
    by (rule arg_cong)
  then have "length rs = length (filter accepted (request_files req))" by simp
  with p m show ?thesis by blast
qed

theorem results_one_per_accepted_file_witness:
  "request_files mixed_request = [png_upload, gif_upload, jpg_upload]
   \<and> request_api_key demo_world mixed_request = ''k''
   \<and> (\<exists>rs st'. process_images demo_world mixed_request st0 = (Inr (ResultsBody rs, 200), st')
         \<and> length rs = 2
         \<and> map (\<lambda>r. r ''original_filename'') rs = [Some (PyStr ''a.png''), Some (PyStr ''b.JPG'')])"
proof -
  have rf: "request_files mixed_request = [png_upload, gif_upload, jpg_upload]"
    and ak: "request_api_key demo_world mixed_request = ''k''"
    by (simp_all add: world_defs handler_defs)
  have h1: "request_files mixed_request \<noteq> []"
    and h2: "length (request_files mixed_request) \<le> 10"
    and h3: "request_api_key demo_world mixed_request \<noteq> []"
    and h4: "\<forall>f p. FileStorage_save demo_world f p = Inr ()"
    by (simp_all add: rf ak) (simp add: demo_world_def)
  have f: "filter accepted (request_files mixed_request) = [png_upload, jpg_upload]"
    unfolding rf by (simp add: png_upload_def gif_upload_def jpg_upload_def string_defs)
  have n: "secure_filename demo_world (filename png_upload) = ''a.png''"
    "secure_filename demo_world (filename jpg_upload) = ''b.JPG''"
    by (simp_all add: demo_world_def png_upload_def jpg_upload_def)
  from results_one_per_accepted_file[OF h1 h2 h3 h4, of st0] show ?thesis
    unfolding f using rf ak by (simp add: n numeral_2_eq_2)
qed

text \<open>
  C4 as stated fails for one allowed file among ten disallowed ones: the eleven files
  are counted before the filter, and the request is rejected.
\<close>

theorem results_count_counterexample:
  "length (filter accepted (request_files eleven_files_request)) = 1
   \<and> request_api_key demo_world eleven_files_request = ''k''
   \<and> process_images demo_world eleven_files_request st0
       = (Inr (ErrorBody ''Maximum 10 files allowed'', 400), st0)"
  by (simp add: world_defs handler_defs string_defs)

section \<open>The recorded processing time\<close>

lemma call_gemini_image_editing_clock:
  "clock_reads (snd (call_gemini_image_editing w k m p img st)) = clock_reads st"
  by (auto simp: call_gemini_image_editing_def call_gemini_try_def log_event_def Let_def
      split: option.splits sum.splits prod.splits)

lemma gemini_editing_step_clock:
  "clock_reads (snd (snd (gemini_editing_step w base prompt k gd img r st))) = clock_reads st"
  using call_gemini_image_editing_clock[of w k GEMINI_MODEL_NAME prompt "Some img" st]
  by (auto simp: gemini_editing_step_def log_event_def Let_def
      split: option.splits sum.splits prod.splits)

lemma process_image_try_clock:
  "clock_reads (snd (snd (process_image_try w ip base prompt k pd gd r st))) = clock_reads st"
  using gemini_editing_step_clock
  by (auto simp: process_image_try_def log_event_def Let_def split: sum.splits)

text \<open>Rounding keeps the sign.\<close>

lemma round_half_even_nonneg: "0 \<le> y \<Longrightarrow> 0 \<le> round_half_even y"
  by (auto simp: round_half_even_def Let_def)

lemma ieee_round_nonneg:
  assumes "0 \<le> x"
  shows "float_nonneg (ieee_round x)"
proof (cases "x = 0")
  case True
  then show ?thesis by (simp add: ieee_round_def)
next
  case False
  with assms have pos: "0 < x" by simp
  define q where "q = max (floor_log2 \<bar>x\<bar> - 52) (- 1074)"
  define m where "m = round_half_even (\<bar>x\<bar> / 2 powi q)"
  have "0 \<le> \<bar>x\<bar> / 2 powi q" by simp
  then have "0 \<le> m" unfolding m_def by (rule round_half_even_nonneg)
  then have "0 \<le> (of_int m :: rat) * 2 powi q" by simp
  with pos False show ?thesis
    by (simp add: ieee_round_def Let_def q_def m_def)
qed

lemma float_sub_nonneg: "b \<le> a \<Longrightarrow> float_nonneg (float_sub a b)"
  by (simp add: float_sub_def ieee_round_nonneg)

lemma py_round2_nonneg: "float_nonneg f \<Longrightarrow> float_nonneg (py_round2 f)"
proof (cases f)
  case (Finite x)
  assume "float_nonneg f"
  with Finite have "0 \<le> x * 100" by simp
  then have "0 \<le> round_half_even (x * 100)" by (rule round_half_even_nonneg)
  then have "0 \<le> (of_int (round_half_even (x * 100)) :: rat) / 100" by simp
  with Finite show ?thesis by (simp add: ieee_round_nonneg)
qed simp_all

lemma py_round2_shape:
  "(\<exists>k. py_round2 f = ieee_round (of_int k / 100)) \<or> py_round2 f = PosInf \<or> py_round2 f = NegInf"
  by (cases f) auto

lemma process_image_time:
  "\<exists>r st'. process_image w ip prompt k pd gd st = (Inr r, st')
     \<and> r ''processing_time''
         = Some (PyFloat (py_round2 (float_sub (clock_reading w (Suc (clock_reads st)))
                                              (clock_reading w (clock_reads st)))))"
proof -
  let ?st1 = "st\<lparr>clock_reads := Suc (clock_reads st)\<rparr>"
  obtain outcome r st2 where
    b: "process_image_try w ip (fst (os_path_splitext (os_path_basename ip)))
          prompt k pd gd initial_result ?st1 = (outcome, r, st2)"
    using prod_cases3 by blast
  from process_image_try_clock[of w ip "fst (os_path_splitext (os_path_basename ip))"
      prompt k pd gd initial_result ?st1] b
  have c: "clock_reads st2 = Suc (clock_reads st)" by simp
  show ?thesis
    using b c by (simp add: process_image_def time_time_def Let_def)
qed

lemma time_recorded_entry:
  assumes "r ''processing_time''
         = Some (PyFloat (py_round2 (float_sub (clock_reading w (Suc n)) (clock_reading w n))))"
  shows "time_recorded w (r(''original_filename'' \<mapsto> PyStr name))"
proof -
  let ?t = "py_round2 (float_sub (clock_reading w (Suc n)) (clock_reading w n))"
  have "(\<forall>n. clock_reading w n \<le> clock_reading w (Suc n)) \<longrightarrow> float_nonneg ?t"
    by (simp add: float_sub_nonneg py_round2_nonneg)
  with assms py_round2_shape[of "float_sub (clock_reading w (Suc n)) (clock_reading w n)"]
  show ?thesis
    unfolding time_recorded_def
    by (intro exI[of _ n] exI[of _ ?t]) simp
qed

lemma process_files_time_recorded:
  assumes "process_files w prompt api_key fs results st = (Inr rs, st')"
    and "list_all (time_recorded w) results"
  shows "list_all (time_recorded w) rs"
  using assms
proof (induction fs arbitrary: results st)
  case Nil
  then show ?case by simp
next
  case (Cons upl rest)
  show ?case
  proof (cases "accepted upl")
    case False
    with Cons.prems Cons.IH[of results st] show ?thesis by simp
  next
    case True
    let ?path = "upload_path w st upl"
    obtain r st1 where
      r: "process_image w ?path prompt api_key PREPROCESSED_DIR GEMINI_OUTPUT_DIR
            (log_event (UploadSaved ?path) (snd (uuid4 w st))) = (Inr r, st1)"
      and t: "r ''processing_time''
         = Some (PyFloat (py_round2 (float_sub
             (clock_reading w (Suc (clock_reads (log_event (UploadSaved ?path) (snd (uuid4 w st))))))
             (clock_reading w (clock_reads (log_event (UploadSaved ?path) (snd (uuid4 w st))))))))"
      using process_image_time by blast
    let ?entry = "r(''original_filename'' \<mapsto> PyStr (secure_filename w (filename upl)))"
    have e: "time_recorded w ?entry"
      using t by (rule time_recorded_entry)
    show ?thesis
    proof (cases "FileStorage_save w upl ?path")
      case (Inl e)
      with True Cons.prems(1) show ?thesis
        by (simp add: upload_path_def Let_def split: prod.splits)
    next
      case (Inr u)
      then have s: "FileStorage_save w upl ?path = Inr ()" by simp
      from process_files_accepted_step[OF True s r, of rest results] Cons.prems(1)
      have "process_files w prompt api_key rest (results @ [?entry]) st1 = (Inr rs, st')"
        by simp
      from Cons.IH[OF this] Cons.prems(2) e show ?thesis by simp
    qed
  qed
qed

text \<open>
  C8, as amended: every entry of a response holds a processing time, whether the image
  failed or not: the difference of two successive readings of the clock, rounded by
  \<^verbatim>\<open>round(x, 2)\<close>, which is the float nearest to a multiple of one hundredth (or an
  infinity, should the difference overflow); it is not negative when no reading of the
  clock is below the one before.
\<close>

theorem processing_time_recorded:
  assumes "process_images w req st = (Inr (ResultsBody rs, 200), st')"
    and "r \<in> set rs"
  shows "\<exists>n t. r ''processing_time'' = Some (PyFloat t)
          \<and> t = py_round2 (float_sub (clock_reading w (Suc n)) (clock_reading w n))
          \<and> ((\<exists>k. t = ieee_round (of_int k / 100)) \<or> t = PosInf \<or> t = NegInf)
          \<and> ((\<forall>n. clock_reading w n \<le> clock_reading w (Suc n)) \<longrightarrow> float_nonneg t)"
proof -
  from assms(1) obtain prompt api_key fs where
    "process_files w prompt api_key fs [] st = (Inr rs, st')"
    by (auto simp: process_images_def Let_def split: if_splits prod.splits sum.splits)
  from process_files_time_recorded[OF this] have "list_all (time_recorded w) rs" by simp
  with assms(2) have "time_recorded w r"
    by (simp add: list_all_iff)
  then show ?thesis
    unfolding time_recorded_def .
qed

text \<open>A request with one file, which is accepted and stored.\<close>

lemma process_images_single_file:
  assumes "request_files req = [upl]"
    and "accepted upl"
    and "request_api_key w req \<noteq> []"
    and "FileStorage_save w upl (upload_path w st upl) = Inr ()"
    and "process_image w (upload_path w st upl) (form_get (form req) ''prompt'' [])
           (request_api_key w req) PREPROCESSED_DIR GEMINI_OUTPUT_DIR
           (log_event (UploadSaved (upload_path w st upl)) (snd (uuid4 w st))) = (Inr res, st')"
  shows "process_images w req st =
     (Inr (ResultsBody [res(''original_filename'' \<mapsto> PyStr (secure_filename w (filename upl)))],
           200), st')"
proof -
  have "process_files w (form_get (form req) ''prompt'' []) (request_api_key w req) (upl # []) [] st
      = process_files w (form_get (form req) ''prompt'' []) (request_api_key w req) []
          ([] @ [res(''original_filename'' \<mapsto> PyStr (secure_filename w (filename upl)))]) st'"
    using assms(2,4,5) by (rule process_files_accepted_step)
  then have "process_files w (form_get (form req) ''prompt'' []) (request_api_key w req)
       (request_files req) [] st
      = (Inr [res(''original_filename'' \<mapsto> PyStr (secure_filename w (filename upl)))], st')"
    by (simp add: assms(1))
  moreover have "request_files req \<noteq> []" "length (request_files req) \<le> 10"
    by (simp_all add: assms(1))
  ultimately show ?thesis
    using assms(3) by (simp add: process_images_served)
qed

text \<open>The floats of the concrete clocks.\<close>

lemma finite_double_5: "finite_double 5 = 5"
  by code_simp

lemma finite_double_10: "finite_double 10 = 10"
  by code_simp

lemma round_of_minus_5: "py_round2 (float_sub 5 10) = Finite (- 5)"
  by code_simp

lemma round_of_5: "py_round2 (float_sub 10 5) = Finite 5"
  by code_simp

text \<open>
  The difference of two floats is rounded before it is rounded to two places: the
  floats nearest to 0.126 and 0.001 differ by the float 0.125, a tie, which goes to 0.12.
\<close>

lemma float_difference_is_rounded:
  "float_sub (finite_double (126 / 1000)) (finite_double (1 / 1000)) = Finite (1 / 8)
   \<and> py_round2 (float_sub (finite_double (126 / 1000)) (finite_double (1 / 1000)))
       = ieee_round (12 / 100)"
  by code_simp

lemma png_only_request_facts:
  "request_files png_only_request = [png_upload]"
  "accepted png_upload"
  "form_get (form png_only_request) ''prompt'' [] = ''p''"
  by (simp_all add: png_only_request_def png_upload_def handler_defs string_defs)

theorem processing_time_recorded_witness:
  "(\<forall>n. clock_reading ticking_world n \<le> clock_reading ticking_world (Suc n))
   \<and> (\<exists>rs st' r. process_images ticking_world png_only_request st0
                     = (Inr (ResultsBody rs, 200), st')
         \<and> r \<in> set rs
         \<and> r ''success'' = Some (PyBool False)
         \<and> r ''processing_time'' = Some (PyFloat (Finite 5))
         \<and> float_nonneg (Finite 5))"
proof -
  let ?w = ticking_world
  let ?path = "upload_path ?w st0 png_upload"
  let ?st = "log_event (UploadSaved ?path) (snd (uuid4 ?w st0))"
  have c0: "clock_reading ?w 0 = 5" and c1: "\<And>n. clock_reading ?w (Suc n) = 10"
    by (simp_all add: clock_reading_def ticking_world_def finite_double_5 finite_double_10)
  have m: "\<forall>n. clock_reading ?w n \<le> clock_reading ?w (Suc n)"
  proof
    fix n show "clock_reading ?w n \<le> clock_reading ?w (Suc n)"
      by (cases n) (simp_all add: c0 c1)
  qed
  have ak: "request_api_key ?w png_only_request = ''k''"
    by (simp add: png_only_request_def handler_defs)
  have sv: "FileStorage_save ?w png_upload ?path = Inr ()"
    by (simp add: ticking_world_def transport_failing_world_def demo_world_def)
  have cr: "clock_reads ?st = 0"
    by (simp add: log_event_def uuid4_def st0_def)
  obtain res st1 where
    pi: "process_image ?w ?path ''p'' ''k'' PREPROCESSED_DIR GEMINI_OUTPUT_DIR ?st = (Inr res, st1)"
    and pt: "res ''processing_time''
         = Some (PyFloat (py_round2 (float_sub (clock_reading ?w (Suc (clock_reads ?st)))
                                              (clock_reading ?w (clock_reads ?st)))))"
    using process_image_time by blast
  have t: "res ''processing_time'' = Some (PyFloat (Finite 5))"
    using pt by (simp add: cr c0 c1 round_of_5)
  have "fst (process_image_try ?w ?path (base_name_of ?path) ''p'' ''k'' PREPROCESSED_DIR
               GEMINI_OUTPUT_DIR initial_result (snd (time_time ?w ?st)))
          = Inl (PyException ''Exception'' ''Gemini API error: 503 UNAVAILABLE'')"
    by (simp add: ticking_world_def world_defs string_defs pipeline_defs handler_defs Let_def)
  from process_image_on_exception[OF this] pi
  have s: "res ''success'' = Some (PyBool False)" by simp
  let ?entry = "res(''original_filename'' \<mapsto> PyStr (secure_filename ?w (filename png_upload)))"
  have eq: "process_images ?w png_only_request st0 = (Inr (ResultsBody [?entry], 200), st1)"
    using png_only_request_facts(1,2) _ sv
  proof (rule process_images_single_file)
    show "request_api_key ?w png_only_request \<noteq> []" by (simp add: ak)
    show "process_image ?w ?path (form_get (form png_only_request) ''prompt'' [])
           (request_api_key ?w png_only_request) PREPROCESSED_DIR GEMINI_OUTPUT_DIR ?st
          = (Inr res, st1)"
      using pi by (simp add: ak png_only_request_facts(3))
  qed
  have mem: "?entry \<in> set [?entry]" by simp
  from processing_time_recorded[OF eq mem] t s
  have "process_images ?w png_only_request st0 = (Inr (ResultsBody [?entry], 200), st1)
         \<and> ?entry \<in> set [?entry]
         \<and> ?entry ''success'' = Some (PyBool False)
         \<and> ?entry ''processing_time'' = Some (PyFloat (Finite 5))
         \<and> float_nonneg (Finite 5)"
    using eq by simp
  then have "\<exists>rs st' r. process_images ?w png_only_request st0 = (Inr (ResultsBody rs, 200), st')
         \<and> r \<in> set rs
         \<and> r ''success'' = Some (PyBool False)
         \<and> r ''processing_time'' = Some (PyFloat (Finite 5))
         \<and> float_nonneg (Finite 5)"
    by (intro exI)
  with m show ?thesis by (rule conjI)
qed

text \<open>
  C8 as stated fails when the clock is set back between the two readings: the recorded
  time is negative.
\<close>

theorem processing_time_counterexample:
  "clock_reading clock_set_back_world 0 = 10
   \<and> clock_reading clock_set_back_world 1 = 5
   \<and> (\<exists>rs st' r. process_images clock_set_back_world png_only_request st0
                     = (Inr (ResultsBody rs, 200), st')
         \<and> r \<in> set rs
         \<and> r ''processing_time'' = Some (PyFloat (Finite (- 5))))
   \<and> \<not> float_nonneg (Finite (- 5))"
proof -
  let ?w = clock_set_back_world
  let ?path = "upload_path ?w st0 png_upload"
  let ?st = "log_event (UploadSaved ?path) (snd (uuid4 ?w st0))"
  have c0: "clock_reading ?w 0 = 10" and c1: "\<And>n. clock_reading ?w (Suc n) = 5"
    by (simp_all add: clock_reading_def clock_set_back_world_def finite_double_5 finite_double_10)
  have ak: "request_api_key ?w png_only_request = ''k''"
    by (simp add: png_only_request_def handler_defs)
  have sv: "FileStorage_save ?w png_upload ?path = Inr ()"
    by (simp add: clock_set_back_world_def demo_world_def)
  have cr: "clock_reads ?st = 0"
    by (simp add: log_event_def uuid4_def st0_def)
  obtain res st1 where
    pi: "process_image ?w ?path ''p'' ''k'' PREPROCESSED_DIR GEMINI_OUTPUT_DIR ?st = (Inr res, st1)"
    and pt: "res ''processing_time''
         = Some (PyFloat (py_round2 (float_sub (clock_reading ?w (Suc (clock_reads ?st)))
                                              (clock_reading ?w (clock_reads ?st)))))"
    using process_image_time by blast
  have t: "res ''processing_time'' = Some (PyFloat (Finite (- 5)))"
    using pt by (simp add: cr c0 c1 round_of_minus_5)
  let ?entry = "res(''original_filename'' \<mapsto> PyStr (secure_filename ?w (filename png_upload)))"
  have eq: "process_images ?w png_only_request st0 = (Inr (ResultsBody [?entry], 200), st1)"
    using png_only_request_facts(1,2) _ sv
  proof (rule process_images_single_file)
    show "request_api_key ?w png_only_request \<noteq> []" by (simp add: ak)
    show "process_image ?w ?path (form_get (form png_only_request) ''prompt'' [])
           (request_api_key ?w png_only_request) PREPROCESSED_DIR GEMINI_OUTPUT_DIR ?st
          = (Inr res, st1)"
      using pi by (simp add: ak png_only_request_facts(3))
  qed
  have "process_images ?w png_only_request st0 = (Inr (ResultsBody [?entry], 200), st1)
         \<and> ?entry \<in> set [?entry]
         \<and> ?entry ''processing_time'' = Some (PyFloat (Finite (- 5)))"
    using eq t by simp
  then have "\<exists>rs st' r. process_images ?w png_only_request st0 = (Inr (ResultsBody rs, 200), st')
         \<and> r \<in> set rs
         \<and> r ''processing_time'' = Some (PyFloat (Finite (- 5)))"
    by (intro exI)
  with c0 c1[of 0] show ?thesis by simp
qed

section \<open>The credential of a served request\<close>

lemma process_image_try_completed_error:
  assumes "api_key \<noteq> []"
    and "process_image_try w ip base prompt api_key pd gd initial_result st = (Inr u, r, st')"
    and "r ''error'' = Some (PyStr ''SDK or API key missing'')"
  shows "\<not> SDK_AVAILABLE w"
  using assms
  by (auto simp: process_image_try_def gemini_editing_step_def initial_result_def Let_def
      split: sum.splits prod.splits option.splits if_splits)

lemma process_image_configuration_error:
  assumes "api_key \<noteq> []"
    and "process_image w ip prompt api_key pd gd st = (Inr res, st')"
    and "res ''error'' = Some (PyStr ''SDK or API key missing'')"
  shows "\<not> SDK_AVAILABLE w
     \<or> (\<exists>e. fst (process_image_try w ip (base_name_of ip) prompt api_key pd gd initial_result
                    (snd (time_time w st))) = Inl e
            \<and> exc_msg e = ''SDK or API key missing'')"
proof -
  obtain t0 st1 where t: "time_time w st = (t0, st1)" by force
  obtain outcome r st2 where
    b: "process_image_try w ip (base_name_of ip) prompt api_key pd gd initial_result st1
          = (outcome, r, st2)"
    using prod_cases3 by blast
  obtain t1 st3 where t': "time_time w st2 = (t1, st3)" by force
  from assms(2) have res: "res = (case outcome of
                                    Inl e \<Rightarrow> r(''error'' \<mapsto> PyStr (exc_msg e))
                                  | Inr _ \<Rightarrow> r)
                                 (''processing_time'' \<mapsto> PyFloat (py_round2 (float_sub t1 t0)))"
    using b by (simp add: process_image_def t t' Let_def base_name_of_def)
  show ?thesis
  proof (cases outcome)
    case (Inl e)
    with res assms(3) have "exc_msg e = ''SDK or API key missing''" by simp
    with Inl b t show ?thesis by simp
  next
    case (Inr u)
    with res assms(3) have "r ''error'' = Some (PyStr ''SDK or API key missing'')" by simp
    with process_image_try_completed_error[OF assms(1)] b Inr show ?thesis by blast
  qed
qed

lemma entry_of_call_entry:
  assumes "api_key \<noteq> []"
    and "process_image w ip prompt api_key PREPROCESSED_DIR GEMINI_OUTPUT_DIR st = (Inr res, st')"
  shows "entry_of_call w prompt api_key (res(''original_filename'' \<mapsto> PyStr name))"
proof -
  have "(res(''original_filename'' \<mapsto> PyStr name)) ''error''
          = Some (PyStr ''SDK or API key missing'') \<longrightarrow>
        \<not> SDK_AVAILABLE w
        \<or> (\<exists>e. fst (process_image_try w ip (base_name_of ip) prompt api_key
                       PREPROCESSED_DIR GEMINI_OUTPUT_DIR initial_result
                       (snd (time_time w st))) = Inl e
               \<and> exc_msg e = ''SDK or API key missing'')"
    using process_image_configuration_error[OF assms] by simp
  with assms(2) show ?thesis
    unfolding entry_of_call_def
    by (intro exI[of _ ip] exI[of _ name] exI[of _ st] exI[of _ res] exI[of _ st']) simp
qed

lemma process_files_entry_of_call:
  assumes "api_key \<noteq> []"
    and "process_files w prompt api_key fs results st = (Inr rs, st')"
    and "list_all (entry_of_call w prompt api_key) results"
  shows "list_all (entry_of_call w prompt api_key) rs"
  using assms(2,3)
proof (induction fs arbitrary: results st)
  case Nil
  then show ?case by simp
next
  case (Cons upl rest)
  show ?case
  proof (cases "accepted upl")
    case False
    with Cons.prems Cons.IH[of results st] show ?thesis by simp
  next
    case True
    let ?path = "upload_path w st upl"
    obtain r st1 where
      r: "process_image w ?path prompt api_key PREPROCESSED_DIR GEMINI_OUTPUT_DIR
            (log_event (UploadSaved ?path) (snd (uuid4 w st))) = (Inr r, st1)"
      using process_image_total by blast
    let ?entry = "r(''original_filename'' \<mapsto> PyStr (secure_filename w (filename upl)))"
    have e: "entry_of_call w prompt api_key ?entry"
      using assms(1) r by (rule entry_of_call_entry)
    show ?thesis
    proof (cases "FileStorage_save w upl ?path")
      case (Inl e)
      with True Cons.prems(1) show ?thesis
        by (simp add: upload_path_def Let_def split: prod.splits)
    next
      case (Inr u)
      then have s: "FileStorage_save w upl ?path = Inr ()" by simp
      from process_files_accepted_step[OF True s r, of rest results] Cons.prems(1)
      have "process_files w prompt api_key rest (results @ [?entry]) st1 = (Inr rs, st')"
        by simp
      from Cons.IH[OF this] Cons.prems(2) e show ?thesis by simp
    qed
  qed
qed

text \<open>
  C10: when the handler answers a request with results, the credential of the request
  is not empty, and every entry of the results is what a call of \<^verbatim>\<open>process_image\<close>
  with that credential returned, with the name of the file added. Such an entry has the
  error \<open>SDK or API key missing\<close> only when the client library is unavailable, unless
  the call caught an exception with that very message.
\<close>

theorem served_request_has_credential:
  assumes "process_images w req st = (Inr (ResultsBody rs, 200), st')"
    and "r \<in> set rs"
  shows "request_api_key w req \<noteq> []
     \<and> (\<exists>image_path name st1 res st2.
           process_image w image_path (form_get (form req) ''prompt'' []) (request_api_key w req)
             PREPROCESSED_DIR GEMINI_OUTPUT_DIR st1 = (Inr res, st2)
           \<and> r = res(''original_filename'' \<mapsto> PyStr name)
           \<and> (r ''error'' = Some (PyStr ''SDK or API key missing'') \<longrightarrow>
                \<not> SDK_AVAILABLE w
                \<or> (\<exists>e. fst (process_image_try w image_path (base_name_of image_path)
                               (form_get (form req) ''prompt'' []) (request_api_key w req)
                               PREPROCESSED_DIR GEMINI_OUTPUT_DIR initial_result
                               (snd (time_time w st1))) = Inl e
                       \<and> exc_msg e = ''SDK or API key missing'')))"
proof -
  from assms(1) have k: "request_api_key w req \<noteq> []"
    by (auto simp: process_images_def Let_def split: if_splits)
  from assms(1) have
    "process_files w (form_get (form req) ''prompt'' []) (request_api_key w req)
       (request_files req) [] st = (Inr rs, st')"
    by (auto simp: process_images_def request_files_def Let_def
        split: if_splits prod.splits sum.splits)
  from process_files_entry_of_call[OF k this]
  have "list_all (entry_of_call w (form_get (form req) ''prompt'' []) (request_api_key w req)) rs"
    by simp
  with assms(2)
  have "entry_of_call w (form_get (form req) ''prompt'' []) (request_api_key w req) r"
    by (simp add: list_all_iff)
  then have "\<exists>image_path name st1 res st2.
           process_image w image_path (form_get (form req) ''prompt'' []) (request_api_key w req)
             PREPROCESSED_DIR GEMINI_OUTPUT_DIR st1 = (Inr res, st2)
           \<and> r = res(''original_filename'' \<mapsto> PyStr name)
           \<and> (r ''error'' = Some (PyStr ''SDK or API key missing'') \<longrightarrow>
                \<not> SDK_AVAILABLE w
                \<or> (\<exists>e. fst (process_image_try w image_path (base_name_of image_path)
                               (form_get (form req) ''prompt'' []) (request_api_key w req)
                               PREPROCESSED_DIR GEMINI_OUTPUT_DIR initial_result
                               (snd (time_time w st1))) = Inl e
                       \<and> exc_msg e = ''SDK or API key missing''))"
    unfolding entry_of_call_def .
  with k show ?thesis by (rule conjI)
qed

theorem served_request_has_credential_witness:
  "request_api_key no_sdk_world png_only_request = ''k''
   \<and> \<not> SDK_AVAILABLE no_sdk_world
   \<and> (\<exists>rs st' r. process_images no_sdk_world png_only_request st0
                     = (Inr (ResultsBody rs, 200), st')
         \<and> r \<in> set rs
         \<and> r ''error'' = Some (PyStr ''SDK or API key missing''))"
proof -
  let ?w = no_sdk_world
  let ?path = "upload_path ?w st0 png_upload"
  let ?st = "log_event (UploadSaved ?path) (snd (uuid4 ?w st0))"
  have ak: "request_api_key ?w png_only_request = ''k''"
    by (simp add: png_only_request_def handler_defs)
  have sdk: "\<not> SDK_AVAILABLE ?w"
    by (simp add: no_sdk_world_def)
  have sv: "FileStorage_save ?w png_upload ?path = Inr ()"
    by (simp add: no_sdk_world_def demo_world_def)
  obtain res st1 where
    pi: "process_image ?w ?path ''p'' ''k'' PREPROCESSED_DIR GEMINI_OUTPUT_DIR ?st = (Inr res, st1)"
    using process_image_total by blast
  have e: "res ''error'' = Some (PyStr ''SDK or API key missing'')"
    using pi by (auto simp: world_defs string_defs pipeline_defs handler_defs Let_def)
  let ?entry = "res(''original_filename'' \<mapsto> PyStr (secure_filename ?w (filename png_upload)))"
  have eq: "process_images ?w png_only_request st0 = (Inr (ResultsBody [?entry], 200), st1)"
    using png_only_request_facts(1,2) _ sv
  proof (rule process_images_single_file)
    show "request_api_key ?w png_only_request \<noteq> []" by (simp add: ak)
    show "process_image ?w ?path (form_get (form png_only_request) ''prompt'' [])
           (request_api_key ?w png_only_request) PREPROCESSED_DIR GEMINI_OUTPUT_DIR ?st
          = (Inr res, st1)"
      using pi by (simp add: ak png_only_request_facts(3))
  qed
  have mem: "?entry \<in> set [?entry]" by simp
  from served_request_has_credential[OF eq mem]
  have k: "request_api_key ?w png_only_request \<noteq> []" by (rule conjunct1)
  have "process_images ?w png_only_request st0 = (Inr (ResultsBody [?entry], 200), st1)
         \<and> ?entry \<in> set [?entry]
         \<and> ?entry ''error'' = Some (PyStr ''SDK or API key missing'')"
    using eq e by simp
  then have "\<exists>rs st' r. process_images ?w png_only_request st0 = (Inr (ResultsBody rs, 200), st')
         \<and> r \<in> set rs
         \<and> r ''error'' = Some (PyStr ''SDK or API key missing'')"
    by (intro exI)
  with ak sdk k show ?thesis by simp
qed

end
